theory Spec2Isabelle
  imports Complex_Main "HOL-Library.Code_Target_Nat"
begin

section \<open>JavaScript values used by the recommender demo\<close>

text \<open>
  A JavaScript string is a sequence of UTF-16 code units; a code unit is modelled by its
  number. \<open>js\<close> turns a HOL string literal into such a sequence.
\<close>

type_synonym jschar = nat
type_synonym jsstring = "jschar list"

definition js :: "string \<Rightarrow> jsstring" where
  "js s = map of_char s"

text \<open>
  A JavaScript number is \<open>NaN\<close>, an infinity or a finite value. \<open>Fin q\<close> stands for
  the Number value of the rational \<open>q\<close>. The functions of the demo that are modelled below
  (\<open>Math.max\<close>, \<open>Math.min\<close>, \<open>Math.floor\<close>, comparison, \<open>toFixed\<close>) are exact on doubles,
  and every double is a rational; the rounding a decimal literal undergoes when it is parsed
  (and overflow to an infinity beyond the double range) is not part of the model, and
  \<open>-0\<close> is identified with \<open>0\<close>.
\<close>

datatype jsnum = NaN | NegInf | PosInf | Fin rat

definition newline :: jschar where "newline = 10"
definition tab :: jschar where "tab = 9"
definition pipe :: jschar where "pipe = 124"

text \<open>
  The code units that \<open>String.prototype.trim\<close>, the regular expression class \<open>\s\<close>,
  \<open>parseInt\<close> and \<open>parseFloat\<close> treat as white space (WhiteSpace and LineTerminator of
  ECMAScript).
\<close>

definition is_ws :: "jschar \<Rightarrow> bool" where
  "is_ws c \<longleftrightarrow>
     c = 9 \<or> c = 10 \<or> c = 11 \<or> c = 12 \<or> c = 13 \<or> c = 32 \<or> c = 160 \<or> c = 5760 \<or>
     (8192 \<le> c \<and> c \<le> 8202) \<or> c = 8232 \<or> c = 8233 \<or> c = 8239 \<or> c = 8287 \<or>
     c = 12288 \<or> c = 65279"

definition is_digit :: "jschar \<Rightarrow> bool" where
  "is_digit c \<longleftrightarrow> 48 \<le> c \<and> c \<le> 57"

text \<open>\<open>s.split(sep)\<close> for a separator of one code unit: at least one part, always.\<close>

fun split_on :: "jschar \<Rightarrow> jsstring \<Rightarrow> jsstring list" where
  "split_on sep [] = [[]]"
| "split_on sep (c # cs) =
     (if c = sep then [] # split_on sep cs
      else (case split_on sep cs of
              [] \<Rightarrow> [[c]]
            | p # ps \<Rightarrow> (c # p) # ps))"

text \<open>\<open>s.trim()\<close>: white space removed at both ends.\<close>

definition trim_start :: "jsstring \<Rightarrow> jsstring" where
  "trim_start s = dropWhile is_ws s"

definition trim_end :: "jsstring \<Rightarrow> jsstring" where
  "trim_end s = rev (dropWhile is_ws (rev s))"

definition trim :: "jsstring \<Rightarrow> jsstring" where
  "trim s = trim_end (trim_start s)"

text \<open>A string is truthy when it is not empty: \<open>filter(line => line.trim())\<close>.\<close>

definition truthy_string :: "jsstring \<Rightarrow> bool" where
  "truthy_string s \<longleftrightarrow> s \<noteq> []"

subsection \<open>parseInt and parseFloat\<close>

definition digit_val :: "jschar \<Rightarrow> nat" where
  "digit_val c = c - 48"

definition hex_val :: "jschar \<Rightarrow> nat option" where
  "hex_val c =
     (if 48 \<le> c \<and> c \<le> 57 then Some (c - 48)
      else if 97 \<le> c \<and> c \<le> 102 then Some (c - 87)
      else if 65 \<le> c \<and> c \<le> 70 then Some (c - 55)
      else None)"

definition dec_value :: "jschar list \<Rightarrow> nat" where
  "dec_value ds = foldl (\<lambda>acc c. acc * 10 + digit_val c) 0 ds"

definition hex_value :: "jschar list \<Rightarrow> nat" where
  "hex_value ds = foldl (\<lambda>acc c. acc * 16 + (case hex_val c of Some v \<Rightarrow> v | None \<Rightarrow> 0)) 0 ds"

text \<open>
  \<open>parseInt(s)\<close> with no radix: leading white space is skipped, a sign is read, a prefix
  \<open>0x\<close> or \<open>0X\<close> selects radix 16, and the longest run of digits is the value; no digit
  gives \<open>NaN\<close>.
\<close>

definition parseInt :: "jsstring \<Rightarrow> jsnum" where
  "parseInt s =
     (let S = trim_start s;
          neg = (case S of [] \<Rightarrow> False | c # _ \<Rightarrow> c = 45);
          S1 = (case S of [] \<Rightarrow> [] | c # r \<Rightarrow> if c = 43 \<or> c = 45 then r else S);
          hex = (case S1 of a # b # _ \<Rightarrow> a = 48 \<and> (b = 120 \<or> b = 88) | _ \<Rightarrow> False);
          Z = (if hex then takeWhile (\<lambda>c. hex_val c \<noteq> None) (drop 2 S1)
               else takeWhile is_digit S1);
          mathInt = (if hex then hex_value Z else dec_value Z)
      in if Z = [] then NaN
         else Fin (if neg then - of_nat mathInt else of_nat mathInt))"

text \<open>
  \<open>parseFloat(s)\<close>: leading white space is skipped and the longest prefix that is a
  decimal literal (sign, \<open>Infinity\<close> or digits with an optional fraction and exponent) is
  the value; no such prefix gives \<open>NaN\<close>.
\<close>

definition exponent_part :: "jsstring \<Rightarrow> int" where
  "exponent_part r =
     (case r of
        [] \<Rightarrow> 0
      | c # r1 \<Rightarrow>
          if c = 101 \<or> c = 69 then
            (let neg = (case r1 of [] \<Rightarrow> False | d # _ \<Rightarrow> d = 45);
                 r2 = (case r1 of [] \<Rightarrow> [] | d # r' \<Rightarrow> if d = 43 \<or> d = 45 then r' else r1);
                 ds = takeWhile is_digit r2
             in if ds = [] then 0
                else if neg then - int (dec_value ds) else int (dec_value ds))
          else 0)"

definition scale10 :: "rat \<Rightarrow> int \<Rightarrow> rat" where
  "scale10 m e = (if 0 \<le> e then m * 10 ^ nat e else m / 10 ^ nat (- e))"

definition parseFloat :: "jsstring \<Rightarrow> jsnum" where
  "parseFloat s =
     (let S = trim_start s;
          neg = (case S of [] \<Rightarrow> False | c # _ \<Rightarrow> c = 45);
          S1 = (case S of [] \<Rightarrow> [] | c # r \<Rightarrow> if c = 43 \<or> c = 45 then r else S)
      in if take 8 S1 = js ''Infinity'' then (if neg then NegInf else PosInf)
         else
           (let ip = takeWhile is_digit S1;
                r1 = dropWhile is_digit S1;
                dot = (case r1 of [] \<Rightarrow> False | c # _ \<Rightarrow> c = 46);
                fp = (if dot then takeWhile is_digit (tl r1) else []);
                r2 = (if dot then dropWhile is_digit (tl r1) else r1);
                m = of_nat (dec_value ip) + of_nat (dec_value fp) / 10 ^ length fp;
                v = scale10 m (exponent_part r2)
            in if ip = [] \<and> fp = [] then NaN
               else Fin (if neg then - v else v)))"

section \<open>Record Parser\<close>

record movie =
  movie_id :: jsnum
  title :: jsstring

record rating =
  userId :: jsnum
  movieId :: jsnum
  rating :: jsnum

text \<open>
  \<open>title.replace(/\s*\(\d{4}\)$/, '')\<close>. The pattern is anchored at the end of the
  string, so a match that starts at some position runs to the end: after the white space
  the rest is an opening parenthesis, four digits and a closing parenthesis.
  \<open>year_at\<close> is the match attempt at the start of its argument; \<open>replace_year\<close> tries the
  positions from left to right, as the regular expression engine does, and replaces the
  first match by the empty string.
\<close>

definition year_paren :: "jsstring \<Rightarrow> bool" where
  "year_paren s =
     (case s of
        [lp, d1, d2, d3, d4, rp] \<Rightarrow>
          lp = 40 \<and> is_digit d1 \<and> is_digit d2 \<and> is_digit d3 \<and> is_digit d4 \<and> rp = 41
      | _ \<Rightarrow> False)"

definition year_at :: "jsstring \<Rightarrow> bool" where
  "year_at s = year_paren (dropWhile is_ws s)"

fun replace_year :: "jsstring \<Rightarrow> jsstring" where
  "replace_year [] = []"
| "replace_year (c # cs) = (if year_at (c # cs) then [] else c # replace_year cs)"

text \<open>
  \<open>text.split('\n').filter(line => line.trim())\<close>: the lines that hold something other
  than white space.
\<close>

definition nonblank_lines :: "jsstring \<Rightarrow> jsstring list" where
  "nonblank_lines text = filter (\<lambda>line. truthy_string (trim line)) (split_on newline text)"

text \<open>
  The loop of \<open>parseItemData\<close> over the lines; \<open>movieData\<close> is the array the loop pushes
  to. \<open>parts.length >= 2\<close> guards the reads of \<open>parts[0]\<close> and \<open>parts[1]\<close>.
\<close>

fun parseItemData_loop :: "jsstring list \<Rightarrow> movie list \<Rightarrow> movie list" where
  "parseItemData_loop [] movieData = movieData"
| "parseItemData_loop (line # lines) movieData =
     (let parts = split_on pipe line in
      if length parts \<ge> 2 then
        (let movieId = parseInt (parts ! 0);
             title0 = trim (parts ! 1);
             title1 = replace_year title0
         in parseItemData_loop lines (movieData @ [\<lparr>movie_id = movieId, title = title1\<rparr>]))
      else parseItemData_loop lines movieData)"

definition parseItemData :: "jsstring \<Rightarrow> movie list" where
  "parseItemData text = parseItemData_loop (nonblank_lines text) []"

text \<open>The loop of \<open>parseRatingData\<close>; \<open>parts[3]\<close>, the timestamp, is never read.\<close>

fun parseRatingData_loop :: "jsstring list \<Rightarrow> rating list \<Rightarrow> rating list" where
  "parseRatingData_loop [] ratingData = ratingData"
| "parseRatingData_loop (line # lines) ratingData =
     (let parts = split_on tab line in
      if length parts \<ge> 3 then
        parseRatingData_loop lines
          (ratingData @ [\<lparr>userId = parseInt (parts ! 0),
                           movieId = parseInt (parts ! 1),
                           rating = parseFloat (parts ! 2)\<rparr>])
      else parseRatingData_loop lines ratingData)"

definition parseRatingData :: "jsstring \<Rightarrow> rating list" where
  "parseRatingData text = parseRatingData_loop (nonblank_lines text) []"

subsection \<open>The parser as the specification words it\<close>






section \<open>Dataset Loader\<close>

record dataset =
  movies :: "movie list"
  ratings :: "rating list"
  numUsers :: jsnum
  numMovies :: nat

text \<open>
  \<open>x < y\<close> on numbers is false when either side is \<open>NaN\<close>.
\<close>

fun js_less :: "jsnum \<Rightarrow> jsnum \<Rightarrow> bool" where
  "js_less NaN _ = False"
| "js_less _ NaN = False"
| "js_less PosInf _ = False"
| "js_less _ NegInf = False"
| "js_less NegInf _ = True"
| "js_less _ PosInf = True"
| "js_less (Fin a) (Fin b) = (a < b)"

text \<open>
  \<open>Math.max(...xs)\<close>: the running maximum starts at \<open>-Infinity\<close>, and an argument that
  is \<open>NaN\<close> makes the result \<open>NaN\<close>.
\<close>

fun Math_max_from :: "jsnum \<Rightarrow> jsnum list \<Rightarrow> jsnum" where
  "Math_max_from highest [] = highest"
| "Math_max_from highest (x # xs) =
     (if x = NaN then NaN
      else Math_max_from (if js_less highest x then x else highest) xs)"

definition Math_max :: "jsnum list \<Rightarrow> jsnum" where
  "Math_max xs = Math_max_from NegInf xs"

text \<open>
  The part of \<open>loadData\<close> that runs once both texts are there (the same lines in both
  versions of the loader): parse, then compute the dimensions. The function assigns the
  globals \<open>movies\<close>, \<open>ratings\<close>, \<open>numUsers\<close> and \<open>numMovies\<close> and returns an object of
  the same four values; the record is both. (The spread \<open>Math.max(...)\<close> passes one
  argument per rating; the limit an engine puts on the number of arguments of a call is
  not part of the model.)
\<close>

definition load_parsed :: "jsstring \<Rightarrow> jsstring \<Rightarrow> dataset" where
  "load_parsed moviesText ratingsText =
     (let movies' = parseItemData moviesText;
          ratings' = parseRatingData ratingsText;
          numUsers' = Math_max (map userId ratings');
          numMovies' = length movies'
      in \<lparr>movies = movies', ratings = ratings', numUsers = numUsers', numMovies = numMovies'\<rparr>)"

text \<open>
  A dimension that can size an embedding table is a positive integer.
\<close>

definition positive_integer :: "jsnum \<Rightarrow> bool" where
  "positive_integer x = (case x of Fin q \<Rightarrow> 0 < q \<and> of_int \<lfloor>q\<rfloor> = q | _ \<Rightarrow> False)"

subsection \<open>Retrieval\<close>

text \<open>
  \<open>fetch(url)\<close> rejects, or resolves to a response with its \<open>ok\<close> flag; reading the
  body with \<open>response.text()\<close> rejects or gives the text. The network is a parameter: a
  function from the location to what the request does. Every location is requested at
  most once by a loader.
\<close>

datatype error = Error string

datatype response = Response (ok: bool) (text_of: "error + jsstring")

type_synonym fetcher = "string \<Rightarrow> error + response"

definition moviesUrl :: string where
  "moviesUrl = ''https://raw.githubusercontent.com/dryjins/RecSys-LLMs/main/week3/ml-100k/u.item''"

definition ratingsUrl :: string where
  "ratingsUrl = ''https://raw.githubusercontent.com/dryjins/RecSys-LLMs/main/week3/ml-100k/u.data''"

text \<open>
  \<open>loadData\<close> of \<open>data.js\<close>: one location per resource. \<open>Promise.all\<close> rejects when a
  request rejects (when both do, the model reports the first of the array); a response
  that is not \<open>ok\<close> throws; the \<open>catch\<close> block logs and throws the error again, so
  \<open>Inl\<close> is what the caller sees.
\<close>

definition loadData_single :: "fetcher \<Rightarrow> error + dataset" where
  "loadData_single fetch =
     (case fetch moviesUrl of
        Inl e \<Rightarrow> Inl e
      | Inr moviesResponse \<Rightarrow>
          (case fetch ratingsUrl of
             Inl e \<Rightarrow> Inl e
           | Inr ratingsResponse \<Rightarrow>
               if \<not> ok moviesResponse \<or> \<not> ok ratingsResponse
               then Inl (Error ''Failed to load dataset files'')
               else
                 (case text_of moviesResponse of
                    Inl e \<Rightarrow> Inl e
                  | Inr moviesText \<Rightarrow>
                      (case text_of ratingsResponse of
                         Inl e \<Rightarrow> Inl e
                       | Inr ratingsText \<Rightarrow> Inr (load_parsed moviesText ratingsText)))))"

subsection \<open>The synthetic dataset\<close>

text \<open>
  \<open>Math.random()\<close> is modelled by the sequence of the values it is going to return, in
  order: a value is consumed by every call. A run that needs more values than the
  sequence holds has no result (\<open>None\<close>); the sequence is the fuel of the \<open>do ... while\<close>
  loop, which has no bound of its own. The values are rationals and products are exact.
  (JavaScript rounds \<open>random * n\<close> to a double, which can lift a product to the next
  integer but, for a value below 1 and \<open>n\<close> among 2, 10 and 20, not up to \<open>n\<close>; it
  compares with the doubles nearest to 0.6 and 0.9.)
\<close>

definition sample_movies :: "movie list" where
  "sample_movies =
     [\<lparr>movie_id = Fin 1, title = js ''Toy Story''\<rparr>,
      \<lparr>movie_id = Fin 2, title = js ''GoldenEye''\<rparr>,
      \<lparr>movie_id = Fin 3, title = js ''Four Rooms''\<rparr>,
      \<lparr>movie_id = Fin 4, title = js ''Get Shorty''\<rparr>,
      \<lparr>movie_id = Fin 5, title = js ''Copycat''\<rparr>,
      \<lparr>movie_id = Fin 6, title = js ''Shanghai Triad''\<rparr>,
      \<lparr>movie_id = Fin 7, title = js ''Twelve Monkeys''\<rparr>,
      \<lparr>movie_id = Fin 8, title = js ''Babe''\<rparr>,
      \<lparr>movie_id = Fin 9, title = js ''Dead Man Walking''\<rparr>,
      \<lparr>movie_id = Fin 10, title = js ''Richard III''\<rparr>,
      \<lparr>movie_id = Fin 11, title = js ''Seven''\<rparr>,
      \<lparr>movie_id = Fin 12, title = js ''Usual Suspects''\<rparr>,
      \<lparr>movie_id = Fin 13, title = js ''Mighty Aphrodite''\<rparr>,
      \<lparr>movie_id = Fin 14, title = js ''Postman, The''\<rparr>,
      \<lparr>movie_id = Fin 15, title = js ''Mr. Holland\039s Opus''\<rparr>,
      \<lparr>movie_id = Fin 16, title = js ''French Twist''\<rparr>,
      \<lparr>movie_id = Fin 17, title = js ''From Dusk Till Dawn''\<rparr>,
      \<lparr>movie_id = Fin 18, title = js ''White Balloon, The''\<rparr>,
      \<lparr>movie_id = Fin 19, title = js ''Antonia\039s Line''\<rparr>,
      \<lparr>movie_id = Fin 20, title = js ''Angels and Insects''\<rparr>]"

text \<open>
  \<open>do { movieId = Math.floor(Math.random() * numMovies) + 1 } while (ratedMovies.has(movieId))\<close>.
  The set \<open>ratedMovies\<close> is the list of its elements in insertion order.
\<close>

fun pick_movie :: "nat \<Rightarrow> rat list \<Rightarrow> int list \<Rightarrow> (int \<times> rat list) option" where
  "pick_movie numMovies' [] ratedMovies = None"
| "pick_movie numMovies' (r # rnd) ratedMovies =
     (let movieId' = \<lfloor>r * of_nat numMovies'\<rfloor> + 1 in
      if movieId' \<in> set ratedMovies then pick_movie numMovies' rnd ratedMovies
      else Some (movieId', rnd))"

text \<open>
  The rating of one generated row: \<open>rand < 0.6\<close> gives 4 or 5, \<open>rand < 0.9\<close> gives 3,
  anything else 1 or 2; the first and the last case call \<open>Math.random()\<close> once more.
\<close>

definition draw_rating :: "rat list \<Rightarrow> (int \<times> rat list) option" where
  "draw_rating rnd =
     (case rnd of
        [] \<Rightarrow> None
      | rand # rnd1 \<Rightarrow>
          if rand < 6 / 10 then
            (case rnd1 of [] \<Rightarrow> None | r # rnd2 \<Rightarrow> Some (\<lfloor>r * 2\<rfloor> + 4, rnd2))
          else if rand < 9 / 10 then Some (3, rnd1)
          else (case rnd1 of [] \<Rightarrow> None | r # rnd2 \<Rightarrow> Some (\<lfloor>r * 2\<rfloor> + 1, rnd2)))"

text \<open>
  The loop \<open>for (let i = 0; i < numRatings; i++)\<close> of one user, by the number of turns
  left; \<open>acc\<close> is the global array \<open>ratings\<close> the rows are pushed to.
\<close>

fun user_loop ::
    "nat \<Rightarrow> nat \<Rightarrow> nat \<Rightarrow> rat list \<Rightarrow> int list \<Rightarrow> rating list \<Rightarrow> (rating list \<times> rat list) option" where
  "user_loop 0 userId' numMovies' rnd ratedMovies acc = Some (acc, rnd)"
| "user_loop (Suc k) userId' numMovies' rnd ratedMovies acc =
     (case pick_movie numMovies' rnd ratedMovies of
        None \<Rightarrow> None
      | Some (movieId', rnd1) \<Rightarrow>
          (case draw_rating rnd1 of
             None \<Rightarrow> None
           | Some (rating', rnd2) \<Rightarrow>
               user_loop k userId' numMovies' rnd2 (ratedMovies @ [movieId'])
                 (acc @ [\<lparr>userId = Fin (of_nat userId'), movieId = Fin (of_int movieId'),
                          rating = Fin (of_int rating')\<rparr>])))"

text \<open>The loop \<open>for (let userId = 1; userId <= numUsers; userId++)\<close>, over the user ids.\<close>

fun users_loop ::
    "nat list \<Rightarrow> nat \<Rightarrow> rat list \<Rightarrow> rating list \<Rightarrow> (rating list \<times> rat list) option" where
  "users_loop [] numMovies' rnd acc = Some (acc, rnd)"
| "users_loop (userId' # rest) numMovies' rnd acc =
     (case rnd of
        [] \<Rightarrow> None
      | r # rnd1 \<Rightarrow>
          (let numRatings = \<lfloor>r * 10\<rfloor> + 5 in
           case user_loop (nat numRatings) userId' numMovies' rnd1 [] acc of
             None \<Rightarrow> None
           | Some (acc', rnd2) \<Rightarrow> users_loop rest numMovies' rnd2 acc'))"

text \<open>
  \<open>loadSampleData\<close>: the dataset and the random values that are left, or \<open>None\<close> when the
  values ran out.
\<close>

definition loadSampleData :: "rat list \<Rightarrow> (dataset \<times> rat list) option" where
  "loadSampleData rnd =
     (let movies' = sample_movies;
          numUsers' = 50;
          numMovies' = length movies'
      in case users_loop [1..<Suc numUsers'] numMovies' rnd [] of
           None \<Rightarrow> None
         | Some (ratings', rnd') \<Rightarrow>
             Some (\<lparr>movies = movies', ratings = ratings', numUsers = Fin (of_nat numUsers'),
                    numMovies = numMovies'\<rparr>, rnd'))"

subsection \<open>The loader with the fallback chain\<close>

definition movieUrls :: "string list" where
  "movieUrls =
     [''https://raw.githubusercontent.com/dryjins/RecSys-LLMs/main/week3/ml-100k/u.item'',
      ''https://raw.githubusercontent.com/dryjins/RecSys-LLMs/refs/heads/main/week3/ml-100k/u.item'',
      ''https://raw.githubusercontent.com/dryjins/RecSys-LLMs/master/week3/ml-100k/u.item'']"

definition ratingUrls :: "string list" where
  "ratingUrls =
     [''https://raw.githubusercontent.com/dryjins/RecSys-LLMs/main/week3/ml-100k/u.data'',
      ''https://raw.githubusercontent.com/dryjins/RecSys-LLMs/refs/heads/main/week3/ml-100k/u.data'',
      ''https://raw.githubusercontent.com/dryjins/RecSys-LLMs/master/week3/ml-100k/u.data'']"

text \<open>
  The body of the inner \<open>try\<close> for one location: \<open>Inl\<close> when the request or the reading
  of the body rejects, \<open>Inr None\<close> when the response is not \<open>ok\<close>, \<open>Inr (Some text)\<close>
  otherwise.
\<close>

definition fetch_attempt :: "fetcher \<Rightarrow> string \<Rightarrow> error + jsstring option" where
  "fetch_attempt fetch url =
     (case fetch url of
        Inl e \<Rightarrow> Inl e
      | Inr response \<Rightarrow>
          if ok response then
            (case text_of response of Inl e \<Rightarrow> Inl e | Inr body \<Rightarrow> Inr (Some body))
          else Inr None)"

text \<open>
  The loop over the locations of one resource: the first text that arrives ends the loop
  (\<open>break\<close>); a rejection is caught, logged and the next location is tried. \<open>None\<close> is
  the success flag left \<open>false\<close>.
\<close>

fun fetch_first :: "fetcher \<Rightarrow> string list \<Rightarrow> jsstring option" where
  "fetch_first fetch [] = None"
| "fetch_first fetch (url # urls) =
     (case fetch_attempt fetch url of
        Inr (Some body) \<Rightarrow> Some body
      | Inr None \<Rightarrow> fetch_first fetch urls
      | Inl e \<Rightarrow> fetch_first fetch urls)"

text \<open>
  \<open>loadData\<close> with the fallback chain. The outcome of a call is a thrown error (\<open>Inl\<close>)
  or the returned dataset (\<open>Inr\<close>), or nothing when the sample generator ran out of random
  values. \<open>loadData_try\<close> is the outer \<open>try\<close> block; the outer \<open>catch\<close> block answers an
  error with the sample data.
\<close>

definition loadData_try :: "fetcher \<Rightarrow> rat list \<Rightarrow> (error + dataset) option" where
  "loadData_try fetch rnd =
     (let moviesLoaded = fetch_first fetch movieUrls;
          ratingsLoaded = fetch_first fetch ratingUrls
      in case (moviesLoaded, ratingsLoaded) of
           (Some moviesText, Some ratingsText) \<Rightarrow> Some (Inr (load_parsed moviesText ratingsText))
         | _ \<Rightarrow> map_option (\<lambda>(d, rnd'). Inr d) (loadSampleData rnd))"

definition loadData_fallback :: "fetcher \<Rightarrow> rat list \<Rightarrow> (error + dataset) option" where
  "loadData_fallback fetch rnd =
     (case loadData_try fetch rnd of
        None \<Rightarrow> None
      | Some (Inr d) \<Rightarrow> Some (Inr d)
      | Some (Inl e) \<Rightarrow> map_option (\<lambda>(d, rnd'). Inr d) (loadSampleData rnd))"

section \<open>Predictor: displaying a prediction\<close>

text \<open>
  \<open>Math.min\<close> and \<open>Math.max\<close> of two numbers, \<open>Math.floor\<close>, \<open>+\<close>, \<open>-\<close>, \<open><=\<close>,
  \<open>>\<close> and \<open>===\<close> on numbers. \<open>NaN\<close> is contagious in the arithmetic and makes every
  comparison false.
\<close>

definition Math_min2 :: "jsnum \<Rightarrow> jsnum \<Rightarrow> jsnum" where
  "Math_min2 a b = (if a = NaN \<or> b = NaN then NaN else if js_less b a then b else a)"

definition Math_max2 :: "jsnum \<Rightarrow> jsnum \<Rightarrow> jsnum" where
  "Math_max2 a b = (if a = NaN \<or> b = NaN then NaN else if js_less a b then b else a)"

fun Math_floor :: "jsnum \<Rightarrow> jsnum" where
  "Math_floor (Fin q) = Fin (of_int \<lfloor>q\<rfloor>)"
| "Math_floor x = x"

fun js_add :: "jsnum \<Rightarrow> jsnum \<Rightarrow> jsnum" where
  "js_add (Fin a) (Fin b) = Fin (a + b)"
| "js_add NaN _ = NaN"
| "js_add _ NaN = NaN"
| "js_add PosInf NegInf = NaN"
| "js_add NegInf PosInf = NaN"
| "js_add PosInf _ = PosInf"
| "js_add NegInf _ = NegInf"
| "js_add _ PosInf = PosInf"
| "js_add _ NegInf = NegInf"

fun js_neg :: "jsnum \<Rightarrow> jsnum" where
  "js_neg (Fin a) = Fin (- a)"
| "js_neg PosInf = NegInf"
| "js_neg NegInf = PosInf"
| "js_neg NaN = NaN"

definition js_sub :: "jsnum \<Rightarrow> jsnum \<Rightarrow> jsnum" where
  "js_sub a b = js_add a (js_neg b)"

definition js_strict_eq :: "jsnum \<Rightarrow> jsnum \<Rightarrow> bool" where
  "js_strict_eq a b \<longleftrightarrow> a \<noteq> NaN \<and> b \<noteq> NaN \<and> a = b"

definition js_le :: "jsnum \<Rightarrow> jsnum \<Rightarrow> bool" where
  "js_le a b \<longleftrightarrow> js_less a b \<or> js_strict_eq a b"

text \<open>The decimal digits of a natural number.\<close>

fun show_nat :: "nat \<Rightarrow> jsstring" where
  "show_nat n = (if n < 10 then [48 + n] else show_nat (n div 10) @ [48 + n mod 10])"

text \<open>
  \<open>x.toFixed(1)\<close>: the integer \<open>n\<close> with \<open>n / 10\<close> nearest to \<open>x\<close>, the larger one on a
  tie, written with one digit after the point. (From \<open>10^21\<close> on JavaScript switches to
  the exponent form, which the clamped score never reaches and the model leaves out.)
\<close>

definition fixed1 :: "rat \<Rightarrow> jsstring" where
  "fixed1 q = (let n = nat \<lfloor>q * 10 + 1 / 2\<rfloor> in show_nat (n div 10) @ [46] @ [48 + n mod 10])"

fun toFixed1 :: "jsnum \<Rightarrow> jsstring" where
  "toFixed1 NaN = js ''NaN''"
| "toFixed1 PosInf = js ''Infinity''"
| "toFixed1 NegInf = js ''-Infinity''"
| "toFixed1 (Fin q) = (if q < 0 then 45 # fixed1 (- q) else fixed1 q)"

definition full_star :: jschar where "full_star = 9733"
definition empty_star :: jschar where "empty_star = 9734"

definition LATENT_DIM :: nat where "LATENT_DIM = 10"
definition EPOCHS :: nat where "EPOCHS = 8"
definition BATCH_SIZE :: nat where "BATCH_SIZE = 128"

definition clampedRating :: "jsnum \<Rightarrow> jsnum" where
  "clampedRating predictedRating = Math_max2 (Fin 1) (Math_min2 (Fin 5) predictedRating)"

text \<open>
  One turn of the loop \<open>for (let i = 1; i <= 5; i++)\<close>. The second branch computes a
  percentage it does not use and appends the same empty star as the third.
\<close>

definition star_step :: "jsnum \<Rightarrow> jsnum \<Rightarrow> jsstring \<Rightarrow> nat \<Rightarrow> jsstring" where
  "star_step fullStars partialStar starsHTML i =
     (if js_le (Fin (of_nat i)) fullStars then starsHTML @ [full_star]
      else if js_strict_eq (Fin (of_nat i)) (js_add fullStars (Fin 1)) \<and> js_less (Fin 0) partialStar
      then starsHTML @ [empty_star]
      else starsHTML @ [empty_star])"

text \<open>
  What \<open>displayPrediction\<close> interpolates into the result markup: the user, the title, the
  stars and the clamped score with one decimal.
\<close>

record display =
  shown_user :: jsstring
  shown_title :: jsstring
  stars :: jsstring
  score_text :: jsstring
  latent_factors :: nat

definition displayPrediction :: "jsstring \<Rightarrow> jsstring \<Rightarrow> jsnum \<Rightarrow> display" where
  "displayPrediction userId' movieTitle predictedRating =
     (let clamped = clampedRating predictedRating;
          fullStars = Math_floor clamped;
          partialStar = js_sub clamped fullStars;
          starsHTML = foldl (star_step fullStars partialStar) [] [1, 2, 3, 4, 5]
      in \<lparr>shown_user = userId', shown_title = movieTitle, stars = starsHTML,
          score_text = toFixed1 clamped, latent_factors = LATENT_DIM\<rparr>)"

section \<open>Trainer and Predictor: the session\<close>

text \<open>
  The tensor engine is outside the repository, so what it does is a parameter: building
  the model from the dimensions, compiling it and fitting it each either throw or give a
  model; a model answers \<open>predict\<close> for a pair of ids with a score or throws.
  \<open>epochs_fit\<close> counts the epochs whose updates the weights hold. \<open>model.fit\<close> reports
  the loss of every finished epoch to \<open>onEpochEnd\<close> and then completes or raises; it
  changes the weights of the model object in place, so the outcome carries the model as
  it is at that moment.
\<close>

record tfmodel =
  epochs_fit :: nat
  predict_tf :: "jsnum \<Rightarrow> jsnum \<Rightarrow> error + jsnum"

datatype fit_outcome =
  FitCompleted "jsnum list" tfmodel
| FitRaised "jsnum list" error tfmodel

record engine =
  createModel_tf :: "jsnum \<Rightarrow> nat \<Rightarrow> error + tfmodel"
  compile_tf :: "tfmodel \<Rightarrow> error + tfmodel"
  fit_tf :: "tfmodel \<Rightarrow> rating list \<Rightarrow> fit_outcome"

text \<open>The messages \<open>updateStatus\<close> and \<open>showResult\<close> write, by what they say.\<close>

datatype status_message =
  NoStatus
| CreatingModel
| ModelCompiled
| StartingTraining
| TrainingEpoch nat nat jsnum
| TrainingCompleted
| TrainingFailed string

datatype prediction_result =
  NothingShown
| MissingSelection
| ModelNotReady
| MakingPrediction
| Predicted display
| PredictionFailed string

text \<open>
  The state of a page session: the global \<open>model\<close> (\<open>None\<close> while it is
  \<open>undefined\<close>), the globals of the loader, the tensors the engine holds (allocated and
  not yet disposed, by handle), and what the page shows.
\<close>

record session =
  model :: "tfmodel option"
  data :: dataset
  live_tensors :: "nat list"
  next_tensor :: nat
  status :: status_message
  progress :: rat
  result :: prediction_result

definition updateStatus :: "status_message \<Rightarrow> session \<Rightarrow> session" where
  "updateStatus message s = s\<lparr>status := message\<rparr>"

definition showResult :: "prediction_result \<Rightarrow> session \<Rightarrow> session" where
  "showResult message s = s\<lparr>result := message\<rparr>"

definition tensor1d :: "session \<Rightarrow> nat \<times> session" where
  "tensor1d s =
     (next_tensor s,
      s\<lparr>live_tensors := live_tensors s @ [next_tensor s], next_tensor := Suc (next_tensor s)\<rparr>)"

definition dispose :: "nat \<Rightarrow> session \<Rightarrow> session" where
  "dispose h s = s\<lparr>live_tensors := removeAll h (live_tensors s)\<rparr>"

text \<open>The \<open>catch\<close> block of \<open>trainModel\<close>: it reports the failure and does nothing else.\<close>

definition trainModel_catch :: "error \<Rightarrow> session \<Rightarrow> session" where
  "trainModel_catch e s = (case e of Error message \<Rightarrow> updateStatus (TrainingFailed message) s)"

text \<open>
  \<open>trainModel\<close> up to \<open>await model.fit(...)\<close>. \<open>Inl\<close>: the function has returned through
  its \<open>catch\<close> block. \<open>Inr\<close>: the fit has been called on the model and the function is
  suspended at the \<open>await\<close>, holding the three tensors; the page handles other events (a
  click on the predict button) until the fit settles. The global \<open>model\<close> is assigned as
  soon as \<open>createModel\<close> returns. (While the fit runs the weights of that model are being
  updated; the state keeps the model as it was compiled.)
\<close>

definition trainModel_begin ::
    "engine \<Rightarrow> session \<Rightarrow> session + session \<times> tfmodel \<times> nat \<times> nat \<times> nat" where
  "trainModel_begin eng s =
     (let s1 = updateStatus CreatingModel s in
      case createModel_tf eng (numUsers (data s1)) (numMovies (data s1)) of
        Inl e \<Rightarrow> Inl (trainModel_catch e s1)
      | Inr m \<Rightarrow>
          (let s2 = s1\<lparr>model := Some m\<rparr> in
           case compile_tf eng m of
             Inl e \<Rightarrow> Inl (trainModel_catch e s2)
           | Inr m' \<Rightarrow>
               (let s3 = updateStatus ModelCompiled (s2\<lparr>model := Some m'\<rparr>);
                    (userTensor, s4) = tensor1d s3;
                    (movieTensor, s5) = tensor1d s4;
                    (ratingTensor, s6) = tensor1d s5;
                    s7 = updateStatus StartingTraining s6
                in Inr (s7, m', userTensor, movieTensor, ratingTensor))))"

text \<open>The callback \<open>onEpochEnd\<close>, for the epochs the fit finished, in order.\<close>

fun onEpochEnd_all :: "nat \<Rightarrow> jsnum list \<Rightarrow> session \<Rightarrow> session" where
  "onEpochEnd_all epoch [] s = s"
| "onEpochEnd_all epoch (loss # losses) s =
     onEpochEnd_all (Suc epoch) losses
       (updateStatus (TrainingEpoch (epoch + 1) EPOCHS loss)
          (s\<lparr>progress := (of_nat (epoch + 1) / of_nat EPOCHS) * 100\<rparr>))"

text \<open>
  \<open>trainModel\<close> from the moment the fit settles; \<open>s\<close> is the session at that moment and
  \<open>m\<close> the model the fit was called on. When the fit completed, the three tensors are
  disposed and the page says so; when it raised, control is in the \<open>catch\<close> block. Either
  way the global \<open>model\<close> is the same object, with the weights the fit left in it.
\<close>

definition trainModel_resume ::
    "engine \<Rightarrow> session \<times> tfmodel \<times> nat \<times> nat \<times> nat \<Rightarrow> session" where
  "trainModel_resume eng suspended =
     (case suspended of (s, m, userTensor, movieTensor, ratingTensor) \<Rightarrow>
        (case fit_tf eng m (ratings (data s)) of
           FitRaised losses e m' \<Rightarrow>
             trainModel_catch e (onEpochEnd_all 0 losses (s\<lparr>model := Some m'\<rparr>))
         | FitCompleted losses m' \<Rightarrow>
             (let s1 = onEpochEnd_all 0 losses (s\<lparr>model := Some m'\<rparr>);
                  s2 = dispose userTensor s1;
                  s3 = dispose movieTensor s2;
                  s4 = dispose ratingTensor s3;
                  s5 = updateStatus TrainingCompleted s4
              in s5\<lparr>progress := 100\<rparr>)))"

text \<open>One whole call of \<open>trainModel\<close>, with no other event in between.\<close>

definition trainModel :: "engine \<Rightarrow> session \<Rightarrow> session" where
  "trainModel eng s =
     (case trainModel_begin eng s of
        Inl s' \<Rightarrow> s'
      | Inr suspended \<Rightarrow> trainModel_resume eng suspended)"

text \<open>
  The \<open>try\<close> block of \<open>predictRating\<close>: \<open>Inl\<close> is an error thrown, with the session as it
  is at the throw (the tensors made before \<open>model.predict\<close> threw are still held);
  \<open>Inr\<close> is the session after \<open>displayPrediction\<close>. A movie id that \<open>movies.find\<close> does
  not find makes the read of \<open>.title\<close> throw.
\<close>

definition predict_try ::
    "tfmodel \<Rightarrow> jsstring \<Rightarrow> jsstring \<Rightarrow> session \<Rightarrow> error \<times> session + session" where
  "predict_try m userId' movieId' s =
     (let s1 = showResult MakingPrediction s;
          (userTensor, s2) = tensor1d s1;
          (movieTensor, s3) = tensor1d s2
      in case predict_tf m (parseInt userId') (parseInt movieId') of
           Inl e \<Rightarrow> Inl (e, s3)
         | Inr predictedRating \<Rightarrow>
             (let (prediction, s4) = tensor1d s3;
                  s5 = dispose userTensor s4;
                  s6 = dispose movieTensor s5;
                  s7 = dispose prediction s6
              in case find (\<lambda>mv. js_strict_eq (movie_id mv) (parseInt movieId')) (movies (data s7)) of
                   None \<Rightarrow> Inl (Error ''Cannot read properties of undefined (reading title)'', s7)
                 | Some mv \<Rightarrow>
                     Inr (showResult (Predicted (displayPrediction userId' (title mv) predictedRating)) s7)))"

text \<open>
  \<open>predictRating\<close>, with the two selected values as arguments. The first component is
  what the call leaves in the result area.
\<close>

definition predictRating :: "session \<Rightarrow> jsstring \<Rightarrow> jsstring \<Rightarrow> prediction_result \<times> session" where
  "predictRating s userId' movieId' =
     (let s' =
        (if userId' = [] \<or> movieId' = [] then showResult MissingSelection s
         else
           (case model s of
              None \<Rightarrow> showResult ModelNotReady s
            | Some m \<Rightarrow>
                (case predict_try m userId' movieId' s of
                   Inr s1 \<Rightarrow> s1
                 | Inl (e, s1) \<Rightarrow>
                     (case e of Error message \<Rightarrow> showResult (PredictionFailed message) s1))))
      in (result s', s'))"

section \<open>Notions used to state the properties\<close>

text \<open>Random values as \<open>Math.random()\<close> returns them: from 0 up to, but not, 1.\<close>

definition unit_draws :: "rat list \<Rightarrow> bool" where
  "unit_draws rnd \<longleftrightarrow> list_all (\<lambda>r. 0 \<le> r \<and> r < 1) rnd"

text \<open>
  A location fails when the request rejects, the response is not \<open>ok\<close>, or its body
  cannot be read.
\<close>

definition location_fails :: "fetcher \<Rightarrow> string \<Rightarrow> bool" where
  "location_fails fetch url =
     (case fetch url of
        Inl e \<Rightarrow> True
      | Inr response \<Rightarrow> (if ok response then isl (text_of response) else True))"

text \<open>The rows of a dataset that belong to one user, in order.\<close>

definition user_ratings :: "dataset \<Rightarrow> nat \<Rightarrow> rating list" where
  "user_ratings d u = filter (\<lambda>r. userId r = Fin (of_nat u)) (ratings d)"

text \<open>
  What the generator guarantees for the rows of one user: between 5 and 14 of them, all
  carrying the user's id, no movie twice, movies from 1 to \<open>n\<close> and ratings from 1 to 5.
\<close>

definition sample_row :: "nat \<Rightarrow> nat \<Rightarrow> rating \<Rightarrow> bool" where
  "sample_row n u r \<longleftrightarrow>
     userId r = Fin (of_nat u) \<and>
     (\<exists>m v. movieId r = Fin (of_int m) \<and> 1 \<le> m \<and> m \<le> int n \<and>
            rating r = Fin (of_int v) \<and> 1 \<le> v \<and> v \<le> 5)"

definition sample_block :: "nat \<Rightarrow> nat \<Rightarrow> rating list \<Rightarrow> bool" where
  "sample_block n u b \<longleftrightarrow>
     5 \<le> length b \<and> length b \<le> 14 \<and> distinct (map movieId b) \<and> list_all (sample_row n u) b"


section \<open>Inputs used as examples\<close>

text \<open>A ratings file of three lines, with the user ids 3, 1 and 7.\<close>

definition ratings_3_1_7 :: jsstring where
  "ratings_3_1_7 = js ''3'' @ [tab] @ js ''10'' @ [tab] @ js ''4'' @ [tab] @ js ''881250949'' @ [newline] @
                   js ''1'' @ [tab] @ js ''20'' @ [tab] @ js ''5'' @ [tab] @ js ''881250950'' @ [newline] @
                   js ''7'' @ [tab] @ js ''10'' @ [tab] @ js ''2'' @ [tab] @ js ''881250951'' @ [newline]"

text \<open>
  A session after loading, an engine whose calls all succeed, and one whose fit raises
  after the first epoch.
\<close>

definition demo_model :: tfmodel where
  "demo_model = \<lparr>epochs_fit = 0, predict_tf = (\<lambda>u m. Inr (Fin (7 / 2)))\<rparr>"

definition demo_engine :: engine where
  "demo_engine =
     \<lparr>createModel_tf = (\<lambda>nu nm. Inr demo_model),
      compile_tf = (\<lambda>m. Inr m),
      fit_tf = (\<lambda>m rs. FitCompleted [Fin 2, Fin 1] (m\<lparr>epochs_fit := 8\<rparr>))\<rparr>"

definition failing_engine :: engine where
  "failing_engine =
     demo_engine\<lparr>fit_tf := (\<lambda>m rs. FitRaised [Fin 2] (Error ''out of memory'') (m\<lparr>epochs_fit := 1\<rparr>))\<rparr>"

definition demo_session :: session where
  "demo_session =
     \<lparr>model = None,
      data = load_parsed (js ''1|Toy Story (1995)'') ratings_3_1_7,
      live_tensors = [], next_tensor = 0, status = NoStatus, progress = 0, result = NothingShown\<rparr>"

text \<open>
  The network on which every request rejects, and the one that answers every request with
  a response that is not \<open>ok\<close>.
\<close>

definition offline :: fetcher where
  "offline = (\<lambda>url. Inl (Error ''Failed to fetch''))"

definition not_found :: fetcher where
  "not_found = (\<lambda>url. Inr (Response False (Inr (js ''404: Not Found''))))"

text \<open>
  Random values for one user (six rows, with repeated draws of a movie already rated),
  and the same values for each of the fifty users.
\<close>

definition user_draws :: "rat list" where
  "user_draws =
     [1 / 10,
      0, 1 / 2, 3 / 4,
      0, 1 / 20, 7 / 10,
      0, 1 / 20, 19 / 20, 95 / 100, 1 / 4,
      2 / 20, 0, 0,
      3 / 20, 7 / 10,
      4 / 20, 7 / 10]"

definition sample_draws :: "rat list" where
  "sample_draws = concat (replicate 50 user_draws)"

text \<open>The six rows those values give to user \<open>u\<close>.\<close>

definition user_rows :: "nat \<Rightarrow> rating list" where
  "user_rows u =
     [\<lparr>userId = Fin (of_nat u), movieId = Fin 1, rating = Fin 5\<rparr>,
      \<lparr>userId = Fin (of_nat u), movieId = Fin 2, rating = Fin 3\<rparr>,
      \<lparr>userId = Fin (of_nat u), movieId = Fin 20, rating = Fin 1\<rparr>,
      \<lparr>userId = Fin (of_nat u), movieId = Fin 3, rating = Fin 4\<rparr>,
      \<lparr>userId = Fin (of_nat u), movieId = Fin 4, rating = Fin 3\<rparr>,
      \<lparr>userId = Fin (of_nat u), movieId = Fin 5, rating = Fin 3\<rparr>]"

section \<open>Properties of the Record Parser\<close>

subsection \<open>Splitting and trimming\<close>

lemma split_on_nonempty: "split_on sep s \<noteq> []"
  by (induction s) (auto split: list.splits)


lemma trim_end_all_ws: "list_all is_ws p \<Longrightarrow> trim_end p = []"
  by (simp add: trim_end_def list_all_iff)


















text \<open>
  What \<open>split_on\<close> returns is the list of fields: no part holds the separator, and the
  parts joined by the separator are the input again.
\<close>

lemma split_on_no_sep: "p \<in> set (split_on sep s) \<Longrightarrow> sep \<notin> set p"
  by (induction s arbitrary: p) (auto split: if_splits list.splits)

lemma split_on_join: "foldr (\<lambda>p acc. p @ sep # acc) (butlast (split_on sep s)) (last (split_on sep s)) = s"
  by (induction s) (auto simp: split_on_nonempty split: list.splits)

subsection \<open>What the number parsers read\<close>

lemma digit_not_ws: "is_digit c \<Longrightarrow> \<not> is_ws c"
  by (auto simp: is_digit_def is_ws_def)

lemma trim_start_digits: "is_digit c \<Longrightarrow> trim_start (c # cs) = c # cs"
  by (simp add: trim_start_def digit_not_ws)

text \<open>
  On a field that is a run of decimal digits, optionally followed by something that is
  not a digit, \<open>parseInt\<close> gives the number the digits write (a leading \<open>0x\<close> apart).
\<close>

lemma parseInt_digits:
  assumes "ds \<noteq> []" and "list_all is_digit ds" and "case rest of [] \<Rightarrow> True | c # _ \<Rightarrow> \<not> is_digit c"
    and "\<not> (\<exists>r. ds @ rest = 48 # 120 # r) \<and> \<not> (\<exists>r. ds @ rest = 48 # 88 # r)"
  shows "parseInt (ds @ rest) = Fin (of_nat (dec_value ds))"
proof -
  obtain d ds' where ds: "ds = d # ds'" using assms(1) by (cases ds) auto
  have d: "is_digit d" using assms(2) ds by simp
  then have sign: "d \<noteq> 43" "d \<noteq> 45" by (auto simp: is_digit_def)
  have tw: "takeWhile is_digit (ds @ rest) = ds"
    using assms(2,3) by (induction ds) (auto simp: list_all_iff split: list.splits)
  have hex: "(case ds @ rest of a # b # _ \<Rightarrow> a = 48 \<and> (b = 120 \<or> b = 88) | _ \<Rightarrow> False) = False"
    using assms(4) by (auto split: list.splits)
  have "trim_start (ds @ rest) = ds @ rest" using ds d by (simp add: trim_start_digits)
  then show ?thesis
    using sign tw hex assms(1) unfolding parseInt_def Let_def
    by (simp add: ds)
qed

text \<open>
  On such a field \<open>parseFloat\<close> gives the same number when what follows is not a point or
  an exponent either (a tab, the end of the line).
\<close>

lemma parseFloat_digits:
  assumes "ds \<noteq> []" and "list_all is_digit ds"
  shows "parseFloat ds = Fin (of_nat (dec_value ds))"
proof -
  obtain d ds' where ds: "ds = d # ds'" using assms(1) by (cases ds) auto
  have d: "is_digit d" using assms(2) ds by simp
  then have sign: "d \<noteq> 43" "d \<noteq> 45" "d \<noteq> 73" by (auto simp: is_digit_def)
  have tw: "takeWhile is_digit ds = ds" "dropWhile is_digit ds = []"
    using assms(2) by (simp_all add: list_all_iff)
  have inf: "take 8 ds \<noteq> js ''Infinity''"
    using sign(3) by (auto simp: ds js_def)
  have "trim_start ds = ds" using ds d by (simp add: trim_start_digits)
  then show ?thesis
    using sign tw inf assms(1) unfolding parseFloat_def Let_def
    by (simp add: ds exponent_part_def scale10_def dec_value_def)
qed

lemma parseFloat_decimal:
  assumes "ip \<noteq> []" and "list_all is_digit ip" and "list_all is_digit fp"
  shows "parseFloat (ip @ [46] @ fp) =
           Fin (of_nat (dec_value ip) + of_nat (dec_value fp) / 10 ^ length fp)"
proof -
  define S where "S = ip @ [46] @ fp"
  obtain d ds' where ds: "ip = d # ds'" using assms(1) by (cases ip) auto
  have d: "is_digit d" using assms(2) ds by simp
  then have sign: "d \<noteq> 43" "d \<noteq> 45" "d \<noteq> 73" by (auto simp: is_digit_def)
  have nd: "\<not> is_digit 46" by (simp add: is_digit_def)
  have t: "trim_start S = S" using ds d by (simp add: S_def trim_start_digits)
  have n: "(case S of [] \<Rightarrow> False | c # _ \<Rightarrow> c = 45) = False"
    using sign by (simp add: S_def ds)
  have s1: "(case S of [] \<Rightarrow> [] | c # r \<Rightarrow> if c = 43 \<or> c = 45 then r else S) = S"
    using sign by (simp add: S_def ds)
  have inf: "(take 8 S = js ''Infinity'') = False"
    using sign(3) by (auto simp: S_def ds js_def)
  have tw: "takeWhile is_digit S = ip" "dropWhile is_digit S = 46 # fp"
    using assms(2) nd by (simp_all add: S_def list_all_iff takeWhile_append2 dropWhile_append2)
  have tf: "takeWhile is_digit fp = fp" "dropWhile is_digit fp = []"
    using assms(3) by (simp_all add: list_all_iff)
  have "parseFloat S = Fin (of_nat (dec_value ip) + of_nat (dec_value fp) / 10 ^ length fp)"
    unfolding parseFloat_def Let_def t n s1 inf tw
    using assms(1) by (simp add: tf exponent_part_def scale10_def)
  then show ?thesis by (simp add: S_def)
qed

subsection \<open>parseMovies\<close>


lemma parseItemData_toy_story:
  "parseItemData (js ''1|Toy Story (1995)|01-Jan-1995||http://us.imdb.com/M/title-exact?Toy%20Story%20(1995)|0|0'') =
     [\<lparr>movie_id = Fin 1, title = js ''Toy Story''\<rparr>]"
  by code_simp

lemma parseItemData_skips_short_lines:
  "parseItemData (js ''1|Toy Story (1995)'' @ [newline] @ js ''no delimiter here'' @ [newline] @
      [newline] @ js ''2|GoldenEye (1995)|x'') =
     [\<lparr>movie_id = Fin 1, title = js ''Toy Story''\<rparr>, \<lparr>movie_id = Fin 2, title = js ''GoldenEye''\<rparr>]"
  by code_simp

subsection \<open>parseRatings\<close>


lemma parseRatingData_example:
  "parseRatingData (js ''196'' @ [tab] @ js ''242'' @ [tab] @ js ''3'' @ [tab] @ js ''881250949'' @
      [newline] @ js ''186'' @ [tab] @ js ''302'' @ [newline] @
      js ''22'' @ [tab] @ js ''377'' @ [tab] @ js ''4.5'' @ [tab] @ js ''878887116'') =
     [\<lparr>userId = Fin 196, movieId = Fin 242, rating = Fin 3\<rparr>,
      \<lparr>userId = Fin 22, movieId = Fin 377, rating = Fin (9 / 2)\<rparr>]"
  by code_simp

section \<open>Properties of the Dataset Loader\<close>

subsection \<open>Dimensions\<close>



lemma Math_max_from_NaN: "NaN \<in> set xs \<Longrightarrow> Math_max_from h xs = NaN"
  by (induction xs arbitrary: h) auto




text \<open>
  Claim C10. If the parsed ratings sequence is empty, \<open>numUsers\<close> is \<open>Math.max\<close> of no
  argument, which is \<open>-Infinity\<close> and not a positive integer; the dataset is returned all
  the same.
\<close>

theorem load_parsed_no_ratings:
  assumes "parseRatingData ratingsText = []"
  shows "numUsers (load_parsed moviesText ratingsText) = NegInf \<and>
         \<not> positive_integer (numUsers (load_parsed moviesText ratingsText)) \<and>
         ratings (load_parsed moviesText ratingsText) = []"
  using assms by (simp add: load_parsed_def Let_def Math_max_def positive_integer_def)

lemma parseRatingData_two_fields: "parseRatingData (js ''196'' @ [tab] @ js ''242'') = []"
  by code_simp

theorem load_parsed_no_ratings_witness:
  "parseRatingData (js ''196'' @ [tab] @ js ''242'') = [] \<and>
   numUsers (load_parsed (js ''1|Toy Story (1995)'') (js ''196'' @ [tab] @ js ''242'')) = NegInf \<and>
   \<not> positive_integer (numUsers (load_parsed (js ''1|Toy Story (1995)'') (js ''196'' @ [tab] @ js ''242'')))"
  using load_parsed_no_ratings [OF parseRatingData_two_fields, of "js ''1|Toy Story (1995)''"]
    parseRatingData_two_fields
  by blast

lemma loadData_single_returns_parsed:
  assumes "fetch moviesUrl = Inr (Response True (Inr moviesText))"
    and "fetch ratingsUrl = Inr (Response True (Inr ratingsText))"
  shows "loadData_single fetch = Inr (load_parsed moviesText ratingsText)"
  using assms by (simp add: loadData_single_def)

lemma loadData_single_empty_ratings:
  "loadData_single (\<lambda>url. Inr (Response True (Inr []))) =
     Inr \<lparr>movies = [], ratings = [], numUsers = NegInf, numMovies = 0\<rparr>"
  by code_simp

section \<open>Properties of the synthetic dataset\<close>

lemma floor_scaled_unit:
  fixes r :: rat
  assumes "0 \<le> r" and "r < 1"
  shows "0 \<le> \<lfloor>r * of_nat n\<rfloor>" and "n > 0 \<Longrightarrow> \<lfloor>r * of_nat n\<rfloor> < int n"
proof -
  show "0 \<le> \<lfloor>r * of_nat n\<rfloor>" using assms(1) by simp
  assume n: "n > 0"
  have "r * of_nat n < of_nat n" using assms(2) n by simp
  then have "r * of_nat n < of_int (int n)" by simp
  then show "\<lfloor>r * of_nat n\<rfloor> < int n" by (simp only: floor_less_iff)
qed

lemma pick_movie_result:
  assumes "pick_movie n rnd rated = Some (m, rest)" and "\<forall>r \<in> set rnd. 0 \<le> r \<and> r < 1" and "n > 0"
  shows "m \<notin> set rated \<and> 1 \<le> m \<and> m \<le> int n \<and> set rest \<subseteq> set rnd \<and> length rest < length rnd"
  using assms
proof (induction rnd)
  case Nil
  then show ?case by simp
next
  case (Cons r rnd)
  have b: "0 \<le> \<lfloor>r * of_nat n\<rfloor>" "\<lfloor>r * of_nat n\<rfloor> < int n"
    using floor_scaled_unit [of r n] Cons.prems by auto
  show ?case
  proof (cases "\<lfloor>r * of_nat n\<rfloor> + 1 \<in> set rated")
    case True
    then have "pick_movie n rnd rated = Some (m, rest)" using Cons.prems(1) by simp
    then show ?thesis using Cons.IH Cons.prems by auto
  next
    case False
    then have "m = \<lfloor>r * of_nat n\<rfloor> + 1" "rest = rnd" using Cons.prems(1) by simp_all
    then show ?thesis using False b by auto
  qed
qed

lemma draw_rating_result:
  assumes "draw_rating rnd = Some (v, rest)" and "\<forall>r \<in> set rnd. 0 \<le> r \<and> r < 1"
  shows "1 \<le> v \<and> v \<le> 5 \<and> set rest \<subseteq> set rnd \<and> length rest < length rnd"
proof -
  have two: "\<And>r::rat. 0 \<le> r \<Longrightarrow> r < 1 \<Longrightarrow> 0 \<le> \<lfloor>r * 2\<rfloor> \<and> \<lfloor>r * 2\<rfloor> < 2"
    using floor_scaled_unit [of _ 2] by simp
  show ?thesis
  proof (cases rnd)
    case Nil
    then show ?thesis using assms by (simp add: draw_rating_def)
  next
    case (Cons rand rnd1)
    show ?thesis
    proof (cases "rand < 6 / 10 \<or> \<not> rand < 9 / 10")
      case False
      then show ?thesis using assms Cons by (auto simp: draw_rating_def)
    next
      case True
      then obtain r rnd2 where r: "rnd1 = r # rnd2"
        using assms Cons by (cases rnd1) (auto simp: draw_rating_def)
      have "0 \<le> \<lfloor>r * 2\<rfloor> \<and> \<lfloor>r * 2\<rfloor> < 2" using two assms(2) Cons r by simp
      then show ?thesis using assms Cons r True
        by (auto simp: draw_rating_def split: if_splits)
    qed
  qed
qed

lemma user_loop_result:
  assumes "user_loop k u n rnd rated acc = Some (acc', rest)"
    and "\<forall>r \<in> set rnd. 0 \<le> r \<and> r < 1" and "n > 0"
  shows "\<exists>new. acc' = acc @ new \<and> length new = k \<and> set rest \<subseteq> set rnd \<and>
           list_all (sample_row n u) new \<and> distinct (map movieId new) \<and>
           (\<forall>x \<in> set new. \<forall>m \<in> set rated. movieId x \<noteq> Fin (of_int m))"
  using assms
proof (induction k arbitrary: rnd rated acc)
  case 0
  then show ?case by simp
next
  case (Suc k)
  from Suc.prems(1) obtain m rnd1 where p: "pick_movie n rnd rated = Some (m, rnd1)"
    by (auto split: option.splits)
  from Suc.prems(1) p obtain v rnd2 where d: "draw_rating rnd1 = Some (v, rnd2)"
    by (auto split: option.splits)
  let ?x = "\<lparr>userId = Fin (of_nat u), movieId = Fin (of_int m), rating = Fin (of_int v)\<rparr>"
  have rec: "user_loop k u n rnd2 (rated @ [m]) (acc @ [?x]) = Some (acc', rest)"
    using Suc.prems(1) p d by simp
  have pm: "m \<notin> set rated" "1 \<le> m" "m \<le> int n" "set rnd1 \<subseteq> set rnd"
    using pick_movie_result [OF p Suc.prems(2) Suc.prems(3)] by auto
  have ok1: "\<forall>r \<in> set rnd1. 0 \<le> r \<and> r < 1" using pm(4) Suc.prems(2) by blast
  have dr: "1 \<le> v" "v \<le> 5" "set rnd2 \<subseteq> set rnd1"
    using draw_rating_result [OF d ok1] by auto
  have ok2: "\<forall>r \<in> set rnd2. 0 \<le> r \<and> r < 1" using dr(3) ok1 by blast
  from Suc.IH [OF rec ok2 Suc.prems(3)] obtain new where new:
    "acc' = (acc @ [?x]) @ new" "length new = k" "set rest \<subseteq> set rnd2"
    "list_all (sample_row n u) new" "distinct (map movieId new)"
    "\<forall>x \<in> set new. \<forall>m' \<in> set (rated @ [m]). movieId x \<noteq> Fin (of_int m')"
    by blast
  have row: "sample_row n u ?x" using pm dr by (auto simp: sample_row_def)
  have fresh: "movieId ?x \<notin> set (map movieId new)" using new(6) by auto
  have old: "\<forall>m' \<in> set rated. movieId ?x \<noteq> Fin (of_int m')" using pm(1) by auto
  show ?case
  proof (intro exI [of _ "?x # new"] conjI)
    show "acc' = acc @ ?x # new" using new(1) by simp
    show "length (?x # new) = Suc k" using new(2) by simp
    show "set rest \<subseteq> set rnd" using new(3) dr(3) pm(4) by blast
    show "list_all (sample_row n u) (?x # new)" using row new(4) by simp
    show "distinct (map movieId (?x # new))" using fresh new(5) by simp
    show "\<forall>x \<in> set (?x # new). \<forall>m \<in> set rated. movieId x \<noteq> Fin (of_int m)"
      using old new(6) by auto
  qed
qed

lemma users_loop_result:
  assumes "users_loop us n rnd acc = Some (acc', rest)"
    and "\<forall>r \<in> set rnd. 0 \<le> r \<and> r < 1" and "n > 0"
  shows "\<exists>blocks. acc' = acc @ concat blocks \<and> list_all2 (sample_block n) us blocks"
  using assms
proof (induction us arbitrary: rnd acc)
  case Nil
  then show ?case by simp
next
  case (Cons u us)
  from Cons.prems(1) obtain r rnd1 where rnd: "rnd = r # rnd1"
    by (cases rnd) auto
  have r: "0 \<le> r" "r < 1" using Cons.prems(2) rnd by auto
  have f: "0 \<le> \<lfloor>r * 10\<rfloor>" "\<lfloor>r * 10\<rfloor> < 10" using floor_scaled_unit [OF r, of 10] by auto
  from Cons.prems(1) rnd obtain acc1 rnd2 where
    ul: "user_loop (nat (\<lfloor>r * 10\<rfloor> + 5)) u n rnd1 [] acc = Some (acc1, rnd2)"
    by (auto simp: Let_def split: option.splits)
  have rec: "users_loop us n rnd2 acc1 = Some (acc', rest)"
    using Cons.prems(1) rnd ul by (simp add: Let_def)
  have ok1: "\<forall>r \<in> set rnd1. 0 \<le> r \<and> r < 1" using Cons.prems(2) rnd by simp
  from user_loop_result [OF ul ok1 Cons.prems(3)] obtain new where new:
    "acc1 = acc @ new" "length new = nat (\<lfloor>r * 10\<rfloor> + 5)" "set rnd2 \<subseteq> set rnd1"
    "list_all (sample_row n u) new" "distinct (map movieId new)"
    by blast
  have ok2: "\<forall>r \<in> set rnd2. 0 \<le> r \<and> r < 1" using new(3) ok1 by blast
  from Cons.IH [OF rec ok2 Cons.prems(3)] obtain blocks where blocks:
    "acc' = acc1 @ concat blocks" "list_all2 (sample_block n) us blocks"
    by blast
  have len: "5 \<le> length new" "length new \<le> 14" using new(2) f by linarith+
  have "sample_block n u new" using len new(4,5) by (simp add: sample_block_def)
  then have "list_all2 (sample_block n) (u # us) (new # blocks)" using blocks(2) by simp
  moreover have "acc' = acc @ concat (new # blocks)" using blocks(1) new(1) by simp
  ultimately show ?case by blast
qed

lemma filter_other_block:
  assumes "sample_block n v b" and "u \<noteq> v"
  shows "filter (\<lambda>r. userId r = Fin (of_nat u)) b = []"
proof -
  have "\<forall>r \<in> set b. userId r = Fin (of_nat v)"
    using assms(1) by (auto simp: sample_block_def sample_row_def list_all_iff)
  then show ?thesis using assms(2) by (auto simp: filter_empty_conv)
qed

lemma filter_own_block:
  assumes "sample_block n u b"
  shows "filter (\<lambda>r. userId r = Fin (of_nat u)) b = b"
proof -
  have "\<forall>r \<in> set b. userId r = Fin (of_nat u)"
    using assms(1) by (auto simp: sample_block_def sample_row_def list_all_iff)
  then show ?thesis by simp
qed

lemma filter_blocks:
  assumes "list_all2 (sample_block n) us blocks" and "distinct us" and "u \<in> set us"
  shows "sample_block n u (filter (\<lambda>r. userId r = Fin (of_nat u)) (concat blocks))"
  using assms
proof (induction us blocks rule: list_all2_induct)
  case Nil
  then show ?case by simp
next
  case (Cons v us b blocks)
  show ?case
  proof (cases "u = v")
    case True
    then have "u \<notin> set us" using Cons.prems(1) by simp
    then have "\<forall>c \<in> set blocks. filter (\<lambda>r. userId r = Fin (of_nat u)) c = []"
      using Cons.hyps(2) filter_other_block
      by (metis in_set_conv_nth list_all2_conv_all_nth nth_mem)
    then have "filter (\<lambda>r. userId r = Fin (of_nat u)) (concat blocks) = []"
      by (induction blocks) auto
    then show ?thesis using True Cons.hyps(1) filter_own_block by simp
  next
    case False
    then have "filter (\<lambda>r. userId r = Fin (of_nat u)) b = []"
      using Cons.hyps(1) filter_other_block by blast
    moreover have "u \<in> set us" using False Cons.prems(2) by simp
    ultimately show ?thesis using Cons.IH Cons.prems(1) by simp
  qed
qed


lemma floor_rat_numeral [simp]:
  "\<lfloor>numeral a / numeral b :: rat\<rfloor> = numeral a div numeral b"
  by (metis floor_divide_of_int_eq of_int_numeral)

lemma floor_rat_one_numeral [simp]:
  "\<lfloor>1 / numeral b :: rat\<rfloor> = 1 div numeral b"
  by (metis floor_divide_of_int_eq of_int_numeral of_int_1)

lemma user_loop_numeral:
  "user_loop (numeral k) u n rnd rated acc =
     (case pick_movie n rnd rated of
        None \<Rightarrow> None
      | Some (m, rnd1) \<Rightarrow>
          (case draw_rating rnd1 of
             None \<Rightarrow> None
           | Some (v, rnd2) \<Rightarrow>
               user_loop (pred_numeral k) u n rnd2 (rated @ [m])
                 (acc @ [\<lparr>userId = Fin (of_nat u), movieId = Fin (of_int m),
                          rating = Fin (of_int v)\<rparr>])))"
  by (simp add: numeral_eq_Suc)

lemma users_loop_user_draws:
  "users_loop (u # us) 20 (user_draws @ rnd) acc = users_loop us 20 rnd (acc @ user_rows u)"
  by (simp add: user_draws_def user_rows_def Let_def draw_rating_def user_loop_numeral)

lemma users_loop_replicate:
  "users_loop us 20 (concat (replicate (length us) user_draws) @ rnd) acc =
     Some (acc @ concat (map user_rows us), rnd)"
proof (induction us arbitrary: acc)
  case Nil
  then show ?case by simp
next
  case (Cons u us)
  have "users_loop (u # us) 20 (concat (replicate (length (u # us)) user_draws) @ rnd) acc =
        users_loop (u # us) 20 (user_draws @ (concat (replicate (length us) user_draws) @ rnd)) acc"
    by simp
  also have "\<dots> = users_loop us 20 (concat (replicate (length us) user_draws) @ rnd) (acc @ user_rows u)"
    by (rule users_loop_user_draws)
  also have "\<dots> = Some ((acc @ user_rows u) @ concat (map user_rows us), rnd)"
    by (rule Cons.IH)
  finally show ?case by simp
qed

lemma loadSampleData_sample_draws:
  "loadSampleData sample_draws =
     Some (\<lparr>movies = sample_movies, ratings = concat (map user_rows [1..<51]),
            numUsers = Fin 50, numMovies = 20\<rparr>, [])"
proof -
  have l: "length [1..<51::nat] = 50" by simp
  have "users_loop [1..<51] 20 (concat (replicate (length [1..<51::nat]) user_draws) @ []) [] =
          Some ([] @ concat (map user_rows [1..<51]), [])"
    by (rule users_loop_replicate)
  then have u: "users_loop [1..<51] 20 sample_draws [] = Some (concat (map user_rows [1..<51]), [])"
    unfolding l sample_draws_def by simp
  have m: "length sample_movies = 20" by (simp add: sample_movies_def)
  have s: "[1..<Suc 50] = [1..<51]" by simp
  show ?thesis
    unfolding loadSampleData_def Let_def m s u by simp
qed

lemma loadSampleData_blocks:
  assumes "\<forall>r \<in> set rnd. 0 \<le> r \<and> r < 1" and "loadSampleData rnd = Some (d, rnd')"
  shows "movies d = sample_movies \<and> numMovies d = 20 \<and> numUsers d = Fin 50 \<and>
         (\<exists>blocks. ratings d = concat blocks \<and> list_all2 (sample_block 20) [1..<51] blocks)"
proof -
  have m: "length sample_movies = 20" by (simp add: sample_movies_def)
  have s: "[1..<Suc 50] = [1..<51]" by simp
  from assms(2) obtain rs where
    u: "users_loop [1..<51] 20 rnd [] = Some (rs, rnd')"
    and d: "d = \<lparr>movies = sample_movies, ratings = rs, numUsers = Fin 50, numMovies = 20\<rparr>"
    unfolding loadSampleData_def Let_def m s by (auto split: option.splits)
  from users_loop_result [OF u assms(1)] obtain blocks where
    "rs = [] @ concat blocks" "list_all2 (sample_block 20) [1..<51] blocks"
    by auto
  then show ?thesis using d by auto
qed


text \<open>No user gets more than 14 rows: \<open>Math.floor(Math.random() * 10)\<close> is at most 9.\<close>

lemma loadSampleData_at_most_14:
  assumes "\<forall>r \<in> set rnd. 0 \<le> r \<and> r < 1" and "loadSampleData rnd = Some (d, rnd')"
    and "u \<in> {1..50}"
  shows "length (user_ratings d u) \<le> 14"
proof -
  from loadSampleData_blocks [OF assms(1,2)] obtain blocks where
    b: "ratings d = concat blocks" "list_all2 (sample_block 20) [1..<51] blocks"
    by blast
  have "u \<in> set [1..<51]" using assms(3) by auto
  from filter_blocks [OF b(2) _ this] have "sample_block 20 u (user_ratings d u)"
    by (simp add: user_ratings_def b(1))
  then show ?thesis by (simp add: sample_block_def)
qed

lemma sample_draws_unit: "\<forall>r \<in> set sample_draws. 0 \<le> r \<and> r < 1"
  by (simp add: sample_draws_def user_draws_def)

subsection \<open>The generator can always finish\<close>

text \<open>
  More random values never change a run that has finished: the values it did not consume
  are handed on.
\<close>

lemma pick_movie_more:
  "pick_movie n rnd rated = Some (m, rest) \<Longrightarrow>
   pick_movie n (rnd @ ext) rated = Some (m, rest @ ext)"
  by (induction rnd) (auto simp: Let_def split: if_splits)

lemma draw_rating_more:
  "draw_rating rnd = Some (v, rest) \<Longrightarrow> draw_rating (rnd @ ext) = Some (v, rest @ ext)"
  by (auto simp: draw_rating_def split: list.splits if_splits)

lemma user_loop_more:
  "user_loop k u n rnd rated acc = Some (acc', rest) \<Longrightarrow>
   user_loop k u n (rnd @ ext) rated acc = Some (acc', rest @ ext)"
proof (induction k arbitrary: rnd rated acc)
  case 0
  then show ?case by simp
next
  case (Suc k)
  from Suc.prems obtain m rnd1 where p: "pick_movie n rnd rated = Some (m, rnd1)"
    by (auto split: option.splits)
  from Suc.prems p obtain v rnd2 where d: "draw_rating rnd1 = Some (v, rnd2)"
    by (auto split: option.splits)
  show ?case
    using Suc.prems Suc.IH p d pick_movie_more [OF p, of ext] draw_rating_more [OF d, of ext]
    by simp
qed

lemma users_loop_more:
  "users_loop us n rnd acc = Some (acc', rest) \<Longrightarrow>
   users_loop us n (rnd @ ext) acc = Some (acc', rest @ ext)"
proof (induction us arbitrary: rnd acc)
  case Nil
  then show ?case by simp
next
  case (Cons u us)
  from Cons.prems obtain r rnd1 where rnd: "rnd = r # rnd1" by (cases rnd) auto
  from Cons.prems rnd obtain acc1 rnd2 where
    ul: "user_loop (nat (\<lfloor>r * 10\<rfloor> + 5)) u n rnd1 [] acc = Some (acc1, rnd2)"
    by (auto simp: Let_def split: option.splits)
  show ?case
    using Cons.prems Cons.IH rnd ul user_loop_more [OF ul, of ext]
    by (simp add: Let_def)
qed

lemma pick_movie_can_finish:
  assumes "1 \<le> m0" and "m0 \<le> int n" and "m0 \<notin> set rated"
  shows "\<exists>m rest. pick_movie n (rnd @ [of_int (m0 - 1) / of_nat n]) rated = Some (m, rest)"
proof (induction rnd)
  case Nil
  have n: "(of_nat n :: rat) \<noteq> 0" using assms(1,2) by auto
  have "\<lfloor>of_int (m0 - 1) / of_nat n * (of_nat n :: rat)\<rfloor> + 1 = m0"
    using n by simp
  then show ?case using assms(3) by (simp add: Let_def)
next
  case (Cons r rnd)
  then show ?case by (auto simp: Let_def)
qed

lemma draw_rating_can_finish:
  "\<exists>v rest. draw_rating (rnd @ [7 / 10, 0]) = Some (v, rest)"
  by (cases rnd; cases "tl rnd") (auto simp: draw_rating_def)

lemma unrated_exists:
  assumes "length rated < n"
  shows "\<exists>m0. 1 \<le> m0 \<and> m0 \<le> int n \<and> m0 \<notin> set rated"
proof (rule ccontr)
  assume "\<not> (\<exists>m0. 1 \<le> m0 \<and> m0 \<le> int n \<and> m0 \<notin> set rated)"
  then have "{1..int n} \<subseteq> set rated" by auto
  then have c: "card {1..int n} \<le> card (set rated)" by (intro card_mono) simp_all
  have "card {1..int n} = n" by simp
  then show False using c assms card_length [of rated] by linarith
qed


lemma user_loop_can_finish:
  assumes "length rated + k \<le> n"
  shows "\<exists>ext. unit_draws ext \<and> user_loop k u n (rnd @ ext) rated acc \<noteq> None"
  using assms
proof (induction k arbitrary: rnd rated acc)
  case 0
  have "unit_draws []" by (simp add: unit_draws_def)
  then show ?case by (metis append_Nil2 option.distinct(1) user_loop.simps(1))
next
  case (Suc k)
  have "length rated < n" using Suc.prems by simp
  from unrated_exists [OF this] obtain m0 where
    m0: "1 \<le> m0" "m0 \<le> int n" "m0 \<notin> set rated" by blast
  define x :: rat where "x = of_int (m0 - 1) / of_nat n"
  have n: "(0::rat) < of_nat n" using m0(1,2) by simp
  have x: "0 \<le> x \<and> x < 1"
    using m0(1,2) n by (simp add: x_def divide_simps)
  from pick_movie_can_finish [OF m0, of rnd] obtain m rnd1 where
    p: "pick_movie n (rnd @ [x]) rated = Some (m, rnd1)" unfolding x_def by blast
  from draw_rating_can_finish [of rnd1] obtain v rnd2 where
    d: "draw_rating (rnd1 @ [7 / 10, 0]) = Some (v, rnd2)" by blast
  let ?row = "\<lparr>userId = Fin (of_nat u), movieId = Fin (of_int m), rating = Fin (of_int v)\<rparr>"
  have "length (rated @ [m]) + k \<le> n" using Suc.prems by simp
  from Suc.IH [OF this, of rnd2 "acc @ [?row]"] obtain ext where
    e: "unit_draws ext" "user_loop k u n (rnd2 @ ext) (rated @ [m]) (acc @ [?row]) \<noteq> None"
    by blast
  let ?ext = "[x] @ [7 / 10, 0] @ ext"
  have p': "pick_movie n (rnd @ ?ext) rated = Some (m, rnd1 @ [7 / 10, 0] @ ext)"
    using pick_movie_more [OF p, of "[7 / 10, 0] @ ext"] by simp
  have d': "draw_rating (rnd1 @ [7 / 10, 0] @ ext) = Some (v, rnd2 @ ext)"
    using draw_rating_more [OF d, of ext] by simp
  have "user_loop (Suc k) u n (rnd @ ?ext) rated acc \<noteq> None"
    using p' d' e(2) by simp
  moreover have "unit_draws ?ext" using x e(1) by (simp add: unit_draws_def)
  ultimately show ?case by blast
qed

lemma unit_draws_subset: "unit_draws rnd \<Longrightarrow> set rest \<subseteq> set rnd \<Longrightarrow> unit_draws rest"
  by (auto simp: unit_draws_def list_all_iff)

lemma users_loop_step_can_finish:
  assumes "0 \<le> r" and "r < 1" and "unit_draws rnd1"
    and "\<And>rnd acc. unit_draws rnd \<Longrightarrow>
           \<exists>ext. unit_draws ext \<and> users_loop us 20 (rnd @ ext) acc \<noteq> None"
  shows "\<exists>ext. unit_draws ext \<and> users_loop (u # us) 20 ((r # rnd1) @ ext) acc \<noteq> None"
proof -
  have f: "0 \<le> \<lfloor>r * 10\<rfloor>" "\<lfloor>r * 10\<rfloor> < 10" using floor_scaled_unit [OF assms(1,2), of 10] by auto
  define k where "k = nat (\<lfloor>r * 10\<rfloor> + 5)"
  have "k \<le> 20" using f unfolding k_def by linarith
  then have "length ([]::int list) + k \<le> 20" by simp
  from user_loop_can_finish [OF this, of u rnd1 acc] obtain ext1 acc1 rnd2 where
    e1: "unit_draws ext1" "user_loop k u 20 (rnd1 @ ext1) [] acc = Some (acc1, rnd2)"
    by auto
  have u1: "unit_draws (rnd1 @ ext1)" using assms(3) e1(1) by (simp add: unit_draws_def)
  then have "\<forall>r \<in> set (rnd1 @ ext1). 0 \<le> r \<and> r < 1" by (simp add: unit_draws_def list_all_iff)
  from user_loop_result [OF e1(2) this] have "set rnd2 \<subseteq> set (rnd1 @ ext1)" by auto
  then have "unit_draws rnd2" using u1 unit_draws_subset by blast
  from assms(4) [OF this, of acc1] obtain ext2 where
    e2: "unit_draws ext2" "users_loop us 20 (rnd2 @ ext2) acc1 \<noteq> None"
    by blast
  have "user_loop k u 20 (rnd1 @ ext1 @ ext2) [] acc = Some (acc1, rnd2 @ ext2)"
    using user_loop_more [OF e1(2), of ext2] by simp
  then have "users_loop (u # us) 20 ((r # rnd1) @ ext1 @ ext2) acc \<noteq> None"
    using e2(2) by (simp add: Let_def k_def)
  moreover have "unit_draws (ext1 @ ext2)" using e1(1) e2(1) by (simp add: unit_draws_def)
  ultimately show ?thesis by blast
qed

lemma users_loop_can_finish:
  assumes "unit_draws rnd"
  shows "\<exists>ext. unit_draws ext \<and> users_loop us 20 (rnd @ ext) acc \<noteq> None"
  using assms
proof (induction us arbitrary: rnd acc)
  case Nil
  have "unit_draws []" by (simp add: unit_draws_def)
  then show ?case by (metis append_Nil2 option.distinct(1) users_loop.simps(1))
next
  case (Cons u us)
  have step: "\<And>rnd acc. unit_draws rnd \<Longrightarrow>
      \<exists>ext. unit_draws ext \<and> users_loop us 20 (rnd @ ext) acc \<noteq> None"
    using Cons.IH by blast
  show ?case
  proof (cases rnd)
    case Nil
    have e: "unit_draws []" by (simp add: unit_draws_def)
    from users_loop_step_can_finish [OF _ _ e step, of 0 u acc] obtain ext where
      "unit_draws ext" "users_loop (u # us) 20 ((0 # []) @ ext) acc \<noteq> None"
      by auto
    then have "unit_draws (0 # ext) \<and> users_loop (u # us) 20 (rnd @ 0 # ext) acc \<noteq> None"
      using Nil by (simp add: unit_draws_def)
    then show ?thesis by blast
  next
    case (Cons r rnd1)
    then have r: "0 \<le> r" "r < 1" "unit_draws rnd1"
      using Cons.prems by (simp_all add: unit_draws_def)
    show ?thesis
      using users_loop_step_can_finish [OF r step, of u acc] Cons by simp
  qed
qed

text \<open>
  Whatever random values have been drawn, the generator finishes on some continuation of
  them: no draw leaves the \<open>do ... while\<close> loop without a movie it can still pick, since a
  user rates at most 14 of the 20 movies.
\<close>

lemma loadSampleData_can_finish:
  assumes "unit_draws rnd"
  shows "\<exists>ext d rnd'. unit_draws ext \<and> loadSampleData (rnd @ ext) = Some (d, rnd')"
proof -
  have m: "length sample_movies = 20" by (simp add: sample_movies_def)
  from users_loop_can_finish [OF assms, of "[1..<Suc 50]" "[]"] obtain ext rs rnd' where
    "unit_draws ext" "users_loop [1..<Suc 50] 20 (rnd @ ext) [] = Some (rs, rnd')"
    by auto
  then show ?thesis
    unfolding loadSampleData_def Let_def m by auto
qed

subsection \<open>The dataset as a whole\<close>

lemma sample_draws_unit_draws: "unit_draws sample_draws"
  using sample_draws_unit by (simp add: unit_draws_def list_all_iff)




section \<open>Properties of the two loaders\<close>

lemma fetch_attempt_fails:
  "location_fails fetch url \<Longrightarrow> fetch_attempt fetch url = Inr (Some body) \<Longrightarrow> False"
  by (auto simp: location_fails_def fetch_attempt_def split: sum.splits if_splits)

lemma fetch_first_all_fail:
  "list_all (location_fails fetch) urls \<Longrightarrow> fetch_first fetch urls = None"
proof (induction urls)
  case Nil
  then show ?case by simp
next
  case (Cons url urls)
  then have "\<And>body. fetch_attempt fetch url \<noteq> Inr (Some body)"
    using fetch_attempt_fails by fastforce
  then show ?case using Cons by (auto split: sum.splits option.splits)
qed

text \<open>
  The first location that answers is the one whose text is used: the locations before it
  failed.
\<close>

lemma fetch_first_Some:
  "fetch_first fetch urls = Some body \<Longrightarrow>
   \<exists>before url after. urls = before @ url # after \<and> list_all (location_fails fetch) before \<and>
      fetch url = Inr (Response True (Inr body))"
proof (induction urls)
  case Nil
  then show ?case by simp
next
  case (Cons url urls)
  show ?case
  proof (cases "fetch_attempt fetch url = Inr (Some body)")
    case True
    then have "fetch url = Inr (Response True (Inr body))"
      by (auto simp: fetch_attempt_def split: sum.splits if_splits) (metis response.collapse)
    then have "url # urls = [] @ url # urls \<and> list_all (location_fails fetch) [] \<and>
        fetch url = Inr (Response True (Inr body))" by simp
    then show ?thesis by blast
  next
    case False
    then have rec: "fetch_first fetch urls = Some body" and f: "location_fails fetch url"
      using Cons.prems
      by (auto simp: location_fails_def fetch_attempt_def split: sum.splits option.splits if_splits)
    from Cons.IH [OF rec] obtain before u after where
      "urls = before @ u # after" "list_all (location_fails fetch) before"
      "fetch u = Inr (Response True (Inr body))" by blast
    then have "url # urls = (url # before) @ u # after \<and>
       list_all (location_fails fetch) (url # before) \<and> fetch u = Inr (Response True (Inr body))"
      using f by simp
    then show ?thesis by blast
  qed
qed

lemma loadData_try_no_error: "loadData_try fetch rnd \<noteq> Some (Inl e)"
  by (auto simp: loadData_try_def Let_def split: option.splits prod.splits)

lemma loadData_fallback_no_error: "loadData_fallback fetch rnd \<noteq> Some (Inl e)"
  by (auto simp: loadData_fallback_def split: option.splits sum.splits prod.splits)

lemma loadData_fallback_eq_try: "loadData_fallback fetch rnd = loadData_try fetch rnd"
  using loadData_try_no_error [of fetch rnd]
  by (cases "loadData_try fetch rnd") (auto simp: loadData_fallback_def split: sum.splits)

lemma loadData_fallback_parsed:
  assumes "fetch_first fetch movieUrls = Some moviesText"
    and "fetch_first fetch ratingUrls = Some ratingsText"
  shows "loadData_fallback fetch rnd = Some (Inr (load_parsed moviesText ratingsText))"
  using assms by (simp add: loadData_fallback_eq_try loadData_try_def)

lemma loadData_fallback_sample:
  assumes "list_all (location_fails fetch) movieUrls \<or> list_all (location_fails fetch) ratingUrls"
  shows "loadData_fallback fetch rnd = map_option (\<lambda>(d, rnd'). Inr d) (loadSampleData rnd)"
proof -
  have "fetch_first fetch movieUrls = None \<or> fetch_first fetch ratingUrls = None"
    using assms fetch_first_all_fail [of fetch movieUrls] fetch_first_all_fail [of fetch ratingUrls]
    by auto
  then show ?thesis
    by (auto simp: loadData_fallback_eq_try loadData_try_def Let_def split: option.splits)
qed

lemma blocks_length:
  "list_all2 (sample_block n) us blocks \<Longrightarrow> 5 * length us \<le> length (concat blocks)"
  by (induction us blocks rule: list_all2_induct) (auto simp: sample_block_def)

lemma loadSampleData_nonempty:
  assumes "unit_draws rnd" and "loadSampleData rnd = Some (d, rnd')"
  shows "length (movies d) = 20 \<and> 250 \<le> length (ratings d) \<and> numUsers d = Fin 50 \<and> numMovies d = 20"
proof -
  have "\<forall>r \<in> set rnd. 0 \<le> r \<and> r < 1" using assms(1) by (simp add: unit_draws_def list_all_iff)
  from loadSampleData_blocks [OF this assms(2)] obtain blocks where
    d: "movies d = sample_movies" "numMovies d = 20" "numUsers d = Fin 50"
    and b: "ratings d = concat blocks" "list_all2 (sample_block 20) [1..<51] blocks"
    by blast
  have "5 * length [1..<51::nat] \<le> length (concat blocks)" using b(2) by (rule blocks_length)
  then show ?thesis using d b(1) by (simp add: sample_movies_def)
qed

text \<open>
  Claim C5, as amended: the loader with the fallback chain. If every location of the
  movie catalog fails, or every location of the ratings, the call is the call of the
  sample generator: it throws nothing, the dataset it returns has 20 movies, 50 users and
  at least 250 ratings, and whatever random numbers have been drawn there is a
  continuation of them on which it returns.
\<close>

theorem loadData_fallback_all_fail:
  assumes "list_all (location_fails fetch) movieUrls \<or> list_all (location_fails fetch) ratingUrls"
    and "unit_draws rnd"
  shows "loadData_fallback fetch rnd = map_option (\<lambda>(d, rnd'). Inr d) (loadSampleData rnd) \<and>
         (\<forall>e. loadData_fallback fetch rnd \<noteq> Some (Inl e)) \<and>
         (\<forall>d. loadData_fallback fetch rnd = Some (Inr d) \<longrightarrow>
            length (movies d) = 20 \<and> 250 \<le> length (ratings d) \<and>
            numUsers d = Fin 50 \<and> numMovies d = 20) \<and>
         (\<exists>ext d. unit_draws ext \<and> loadData_fallback fetch (rnd @ ext) = Some (Inr d) \<and>
            length (movies d) = 20 \<and> 250 \<le> length (ratings d))"
proof -
  have fb: "\<And>rnd. loadData_fallback fetch rnd = map_option (\<lambda>(d, rnd'). Inr d) (loadSampleData rnd)"
    using assms(1) by (rule loadData_fallback_sample)
  have ne: "\<forall>d. loadData_fallback fetch rnd = Some (Inr d) \<longrightarrow>
            length (movies d) = 20 \<and> 250 \<le> length (ratings d) \<and>
            numUsers d = Fin 50 \<and> numMovies d = 20"
    using loadSampleData_nonempty [OF assms(2)] by (auto simp: fb)
  from loadSampleData_can_finish [OF assms(2)] obtain ext d rnd' where
    e: "unit_draws ext" "loadSampleData (rnd @ ext) = Some (d, rnd')" by blast
  have "unit_draws (rnd @ ext)" using assms(2) e(1) by (simp add: unit_draws_def)
  from loadSampleData_nonempty [OF this e(2)] have
    "length (movies d) = 20 \<and> 250 \<le> length (ratings d)" by simp
  moreover have "loadData_fallback fetch (rnd @ ext) = Some (Inr d)" using e(2) by (simp add: fb)
  ultimately have fin: "\<exists>ext d. unit_draws ext \<and> loadData_fallback fetch (rnd @ ext) = Some (Inr d) \<and>
            length (movies d) = 20 \<and> 250 \<le> length (ratings d)"
    using e(1) by blast
  show ?thesis using fb [of rnd] loadData_fallback_no_error ne fin by blast
qed

lemma offline_fails: "list_all (location_fails offline) movieUrls"
  by (simp add: location_fails_def offline_def movieUrls_def)

theorem loadData_fallback_all_fail_witness:
  "list_all (location_fails offline) movieUrls \<and> unit_draws sample_draws \<and>
   loadData_fallback offline sample_draws =
     Some (Inr \<lparr>movies = sample_movies, ratings = concat (map user_rows [1..<51]),
                 numUsers = Fin 50, numMovies = 20\<rparr>)"
proof -
  have "list_all (location_fails offline) movieUrls \<or> list_all (location_fails offline) ratingUrls"
    using offline_fails by simp
  from loadData_fallback_all_fail [OF this sample_draws_unit_draws]
  show ?thesis
    using offline_fails sample_draws_unit_draws by (simp add: loadSampleData_sample_draws)
qed

text \<open>
  The loader of \<open>data.js\<close> has one location per resource and no fallback: a request that
  rejects, or a response that is not \<open>ok\<close>, is thrown to the caller.
\<close>

theorem loadData_single_propagates:
  "loadData_single offline = Inl (Error ''Failed to fetch'') \<and>
   loadData_single not_found = Inl (Error ''Failed to load dataset files'')"
  by (simp add: loadData_single_def offline_def not_found_def)

lemma loadData_fallback_returns_parsed:
  assumes "fetch (movieUrls ! 0) = Inr (Response True (Inr moviesText))"
    and "fetch (ratingUrls ! 0) = Inr (Response True (Inr ratingsText))"
  shows "loadData_fallback fetch rnd = Some (Inr (load_parsed moviesText ratingsText))"
proof -
  have "fetch_first fetch movieUrls = Some moviesText"
    using assms(1) by (simp add: movieUrls_def fetch_attempt_def)
  moreover have "fetch_first fetch ratingUrls = Some ratingsText"
    using assms(2) by (simp add: ratingUrls_def fetch_attempt_def)
  ultimately show ?thesis by (rule loadData_fallback_parsed)
qed

section \<open>Properties of the display\<close>

lemma star_step_append:
  "star_step fullStars partialStar starsHTML i =
     starsHTML @ [if js_le (Fin (of_nat i)) fullStars then full_star else empty_star]"
  by (simp add: star_step_def)

lemma stars_loop_map:
  "foldl (star_step fullStars partialStar) acc is =
     acc @ map (\<lambda>i. if js_le (Fin (of_nat i)) fullStars then full_star else empty_star) is"
  by (induction "is" arbitrary: acc) (simp_all add: star_step_append)

lemma js_le_Fin: "js_le (Fin a) (Fin b) \<longleftrightarrow> a \<le> b"
  by (auto simp: js_le_def js_strict_eq_def)

lemma stars_of_floor:
  assumes "1 \<le> k" and "k \<le> 5"
  shows "map (\<lambda>i. if js_le (Fin (of_nat i)) (Fin (of_int (int k))) then full_star else empty_star) [1, 2, 3, 4, 5]
         = replicate k full_star @ replicate (5 - k) empty_star"
proof -
  from assms have "k = 1 \<or> k = 2 \<or> k = 3 \<or> k = 4 \<or> k = 5" by arith
  then show ?thesis
    by (elim disjE) (simp_all add: js_le_Fin numeral_eq_Suc)
qed

lemma clampedRating_Fin:
  "clampedRating (Fin a) = Fin (max 1 (min 5 a))"
  by (auto simp: clampedRating_def Math_max2_def Math_min2_def max_def min_def)

lemma clampedRating_cases:
  assumes "x \<noteq> NaN"
  shows "\<exists>q. clampedRating x = Fin q \<and> 1 \<le> q \<and> q \<le> 5 \<and>
            (case x of Fin a \<Rightarrow> q = max 1 (min 5 a) | PosInf \<Rightarrow> q = 5 | _ \<Rightarrow> q = 1)"
  using assms
  by (cases x) (auto simp: clampedRating_def Math_max2_def Math_min2_def max_def min_def)

lemma displayPrediction_Fin:
  assumes c: "clampedRating x = Fin q" and "1 \<le> q" and "q \<le> 5"
  shows "stars (displayPrediction u t x) =
           replicate (nat \<lfloor>q\<rfloor>) full_star @ replicate (5 - nat \<lfloor>q\<rfloor>) empty_star"
    and "score_text (displayPrediction u t x) = fixed1 q"
proof -
  have f1: "1 \<le> \<lfloor>q\<rfloor>" using assms(2) by linarith
  have f5: "\<lfloor>q\<rfloor> \<le> 5" using assms(3) by linarith
  have k1: "1 \<le> nat \<lfloor>q\<rfloor>" using f1 by arith
  have k5: "nat \<lfloor>q\<rfloor> \<le> 5" using f5 by arith
  note k = k1 k5
  have fl: "(of_int \<lfloor>q\<rfloor> :: rat) = of_int (int (nat \<lfloor>q\<rfloor>))" using f1 by simp
  show "stars (displayPrediction u t x) =
           replicate (nat \<lfloor>q\<rfloor>) full_star @ replicate (5 - nat \<lfloor>q\<rfloor>) empty_star"
    using stars_of_floor [OF k]
    by (simp only: displayPrediction_def Let_def c stars_loop_map Math_floor.simps fl
        display.simps append_Nil)
  show "score_text (displayPrediction u t x) = fixed1 q"
    using assms(2) by (simp add: displayPrediction_def Let_def c)
qed

lemma displayPrediction_number:
  assumes "predictedRating \<noteq> NaN"
  shows "\<exists>q. clampedRating predictedRating = Fin q \<and> 1 \<le> q \<and> q \<le> 5 \<and>
           (case predictedRating of Fin a \<Rightarrow> q = max 1 (min 5 a) | PosInf \<Rightarrow> q = 5 | _ \<Rightarrow> q = 1) \<and>
           stars (displayPrediction u t predictedRating) =
             replicate (nat \<lfloor>q\<rfloor>) full_star @ replicate (5 - nat \<lfloor>q\<rfloor>) empty_star \<and>
           score_text (displayPrediction u t predictedRating) = fixed1 q"
proof -
  from clampedRating_cases [OF assms] obtain q where
    q: "clampedRating predictedRating = Fin q" "1 \<le> q" "q \<le> 5"
      "(case predictedRating of Fin a \<Rightarrow> q = max 1 (min 5 a) | PosInf \<Rightarrow> q = 5 | _ \<Rightarrow> q = 1)"
    by blast
  show ?thesis
    using q displayPrediction_Fin [OF q(1) q(2) q(3), of u t] by blast
qed

lemma displayPrediction_examples:
  "clampedRating (Fin (3 / 10)) = Fin 1"
  "clampedRating (Fin (79 / 10)) = Fin 5"
  "clampedRating (Fin (36 / 10)) = Fin (36 / 10)"
  "fixed1 1 = js ''1.0''"
  "fixed1 5 = js ''5.0''"
  "fixed1 (36 / 10) = js ''3.6''"
  "nat \<lfloor>36 / 10 :: rat\<rfloor> = 3"
  by code_simp+

lemma displayPrediction_3_6:
  "stars (displayPrediction u t (Fin (36 / 10))) = replicate 3 full_star @ replicate 2 empty_star \<and>
   score_text (displayPrediction u t (Fin (36 / 10))) = js ''3.6''"
proof -
  have c: "clampedRating (Fin (36 / 10)) = Fin (36 / 10)" by (rule displayPrediction_examples(3))
  have "(1::rat) \<le> 36 / 10" "(36 / 10 :: rat) \<le> 5" by simp_all
  from displayPrediction_Fin [OF c this, of u t] show ?thesis
    by (simp only: displayPrediction_examples(6,7)) simp
qed

text \<open>
  Claim C9, as amended. For every raw score that is a number (finite or infinite, not
  \<open>NaN\<close>), \<open>displayPrediction\<close> clamps the score into the interval from 1 to 5, shows
  the floor of the clamped score as full stars and empty stars for the rest of five, and
  shows the clamped score with one decimal: 0.3 is clamped to 1 and shown as 1.0, 7.9 is
  clamped to 5 and shown as 5.0, and 3.6 is shown as 3.6 with three full stars.
\<close>

theorem displayPrediction_clamps:
  assumes "predictedRating \<noteq> NaN"
  shows "(\<exists>q. clampedRating predictedRating = Fin q \<and> 1 \<le> q \<and> q \<le> 5 \<and>
           (case predictedRating of Fin a \<Rightarrow> q = max 1 (min 5 a) | PosInf \<Rightarrow> q = 5 | _ \<Rightarrow> q = 1) \<and>
           stars (displayPrediction u t predictedRating) =
             replicate (nat \<lfloor>q\<rfloor>) full_star @ replicate (5 - nat \<lfloor>q\<rfloor>) empty_star \<and>
           score_text (displayPrediction u t predictedRating) = fixed1 q) \<and>
         clampedRating (Fin (3 / 10)) = Fin 1 \<and>
         score_text (displayPrediction u t (Fin (3 / 10))) = js ''1.0'' \<and>
         clampedRating (Fin (79 / 10)) = Fin 5 \<and>
         score_text (displayPrediction u t (Fin (79 / 10))) = js ''5.0'' \<and>
         score_text (displayPrediction u t (Fin (36 / 10))) = js ''3.6'' \<and>
         stars (displayPrediction u t (Fin (36 / 10))) =
           replicate 3 full_star @ replicate 2 empty_star"
proof -
  have lo: "score_text (displayPrediction u t (Fin (3 / 10))) = js ''1.0''"
    using displayPrediction_Fin(2) [OF displayPrediction_examples(1), of u t]
    by (simp add: displayPrediction_examples(4))
  have hi: "score_text (displayPrediction u t (Fin (79 / 10))) = js ''5.0''"
    using displayPrediction_Fin(2) [OF displayPrediction_examples(2), of u t]
    by (simp add: displayPrediction_examples(5))
  show ?thesis
    using displayPrediction_number [OF assms, of u t] lo hi displayPrediction_examples(1,2)
      displayPrediction_3_6 [of u t]
    by blast
qed

theorem displayPrediction_clamps_witness:
  "Fin (9 / 2) \<noteq> NaN \<and>
   clampedRating (Fin (9 / 2)) = Fin (9 / 2) \<and>
   stars (displayPrediction (js ''1'') (js ''Toy Story'') (Fin (9 / 2))) =
     [full_star, full_star, full_star, full_star, empty_star] \<and>
   score_text (displayPrediction (js ''1'') (js ''Toy Story'') (Fin (9 / 2))) = js ''4.5''"
proof -
  have n: "Fin (9 / 2) \<noteq> NaN" by simp
  from displayPrediction_clamps [OF n, of "js ''1''" "js ''Toy Story''"] obtain q where
    q: "clampedRating (Fin (9 / 2)) = Fin q" "q = max 1 (min 5 (9 / 2))"
       "stars (displayPrediction (js ''1'') (js ''Toy Story'') (Fin (9 / 2))) =
          replicate (nat \<lfloor>q\<rfloor>) full_star @ replicate (5 - nat \<lfloor>q\<rfloor>) empty_star"
       "score_text (displayPrediction (js ''1'') (js ''Toy Story'') (Fin (9 / 2))) = fixed1 q"
    by auto
  have v: "q = 9 / 2" using q(2) by simp
  have f: "nat \<lfloor>9 / 2 :: rat\<rfloor> = 4" "fixed1 (9 / 2) = js ''4.5''" by code_simp+
  have r: "replicate 4 full_star @ replicate (5 - 4) empty_star =
      [full_star, full_star, full_star, full_star, empty_star]"
    by (simp add: numeral_eq_Suc)
  show ?thesis using n q(1) q(3) q(4) unfolding v f r by simp
qed

text \<open>
  The score \<open>NaN\<close> is not clamped: \<open>Math.min\<close> and \<open>Math.max\<close> pass it on, no star is
  full and the text is \<open>NaN\<close>.
\<close>

theorem displayPrediction_NaN:
  "clampedRating NaN = NaN \<and>
   stars (displayPrediction (js ''1'') (js ''Toy Story'') NaN) =
     [empty_star, empty_star, empty_star, empty_star, empty_star] \<and>
   score_text (displayPrediction (js ''1'') (js ''Toy Story'') NaN) = js ''NaN''"
  by code_simp

section \<open>Properties of the session\<close>

lemma result_showResult [simp]: "result (showResult r s) = r"
  by (simp add: showResult_def)

lemma model_updateStatus [simp]: "model (updateStatus msg s) = model s"
  by (simp add: updateStatus_def)

lemma model_trainModel_catch [simp]: "model (trainModel_catch e s) = model s"
  by (cases e) (simp add: trainModel_catch_def)

lemma model_onEpochEnd_all [simp]: "model (onEpochEnd_all k losses s) = model s"
  by (induction k losses s rule: onEpochEnd_all.induct) simp_all

lemma live_updateStatus [simp]: "live_tensors (updateStatus msg s) = live_tensors s"
  by (simp add: updateStatus_def)

lemma live_trainModel_catch [simp]: "live_tensors (trainModel_catch e s) = live_tensors s"
  by (cases e) (simp add: trainModel_catch_def)

lemma live_onEpochEnd_all [simp]: "live_tensors (onEpochEnd_all k losses s) = live_tensors s"
  by (induction k losses s rule: onEpochEnd_all.induct) simp_all

text \<open>
  Before \<open>trainModel\<close> is called the global \<open>model\<close> is undefined, and a request with both
  selections made is answered \<open>ModelNotReady\<close> with nothing else changed. A request with
  a selection missing is answered \<open>MissingSelection\<close>, whatever the model.
\<close>

lemma predictRating_no_model:
  assumes "model s = None" and "userId' \<noteq> []" and "movieId' \<noteq> []"
  shows "predictRating s userId' movieId' = (ModelNotReady, s\<lparr>result := ModelNotReady\<rparr>)"
  using assms by (simp add: predictRating_def showResult_def)

lemma predictRating_missing_selection:
  assumes "userId' = [] \<or> movieId' = []"
  shows "predictRating s userId' movieId' = (MissingSelection, s\<lparr>result := MissingSelection\<rparr>)"
  using assms by (auto simp: predictRating_def showResult_def)

text \<open>
  Once \<open>trainModel\<close> is suspended at the fit, the global \<open>model\<close> is set (to the model
  the fit runs on), and the three tensors are held.
\<close>

lemma trainModel_begin_suspended:
  assumes "trainModel_begin eng s = Inr (s', m, userTensor, movieTensor, ratingTensor)"
  shows "model s' = Some m"
    and "live_tensors s' = live_tensors s @ [userTensor, movieTensor, ratingTensor]"
    and "userTensor = next_tensor s \<and> movieTensor = Suc (next_tensor s) \<and>
         ratingTensor = Suc (Suc (next_tensor s))"
  using assms
  by (auto simp: trainModel_begin_def Let_def tensor1d_def updateStatus_def
      split: sum.splits prod.splits)

text \<open>
  With the global \<open>model\<close> set, a request with both selections made is never answered
  \<open>ModelNotReady\<close>: it shows a score, or the failure of the prediction.
\<close>

lemma predictRating_with_model:
  assumes "model s = Some m" and "userId' \<noteq> []" and "movieId' \<noteq> []"
  shows "(\<exists>d. fst (predictRating s userId' movieId') = Predicted d) \<or>
         (\<exists>msg. fst (predictRating s userId' movieId') = PredictionFailed msg)"
proof (cases "predict_try m userId' movieId' s")
  case (Inl thrown)
  obtain e s1 where "thrown = (e, s1)" by (cases thrown) auto
  then show ?thesis using Inl assms
    by (cases e) (simp add: predictRating_def)
next
  case (Inr s1)
  then have "\<exists>d. result s1 = Predicted d"
    by (auto simp: predict_try_def Let_def split: sum.splits prod.splits option.splits)
  then show ?thesis using assms Inr
    by (auto simp: predictRating_def)
qed

lemma predictRating_while_training:
  assumes "trainModel_begin eng s = Inr (s', m, ts)" and "userId' \<noteq> []" and "movieId' \<noteq> []"
  shows "fst (predictRating s' userId' movieId') \<noteq> ModelNotReady"
proof -
  obtain a b c where "ts = (a, b, c)" by (cases ts) auto
  then have "model s' = Some m" using assms(1) trainModel_begin_suspended(1) by blast
  from predictRating_with_model [OF this assms(2,3)] show ?thesis by auto
qed

text \<open>
  When the fit raises, the \<open>catch\<close> block leaves the global \<open>model\<close> and the three tensors
  as they are.
\<close>

lemma trainModel_resume_raised:
  assumes "fit_tf eng m (ratings (data s)) = FitRaised losses e m'"
  shows "model (trainModel_resume eng (s, m, userTensor, movieTensor, ratingTensor)) = Some m'"
    and "live_tensors (trainModel_resume eng (s, m, userTensor, movieTensor, ratingTensor)) =
           live_tensors s"
  using assms by (simp_all add: trainModel_resume_def)

lemma trainModel_resume_completed:
  assumes "fit_tf eng m (ratings (data s)) = FitCompleted losses m'"
  shows "live_tensors (trainModel_resume eng (s, m, userTensor, movieTensor, ratingTensor)) =
           removeAll ratingTensor (removeAll movieTensor (removeAll userTensor (live_tensors s)))"
  using assms by (simp add: trainModel_resume_def Let_def dispose_def updateStatus_def)

text \<open>
  A training call whose fit completes releases the three tensors it made (handles are
  fresh when every live handle is below the next one).
\<close>

lemma trainModel_completed_releases:
  assumes "trainModel_begin eng s = Inr (s', m, ts)"
    and "fit_tf eng m (ratings (data s')) = FitCompleted losses m'"
    and "\<forall>h \<in> set (live_tensors s). h < next_tensor s"
  shows "live_tensors (trainModel eng s) = live_tensors s"
proof -
  obtain a b c where ts: "ts = (a, b, c)" by (cases ts) auto
  have b: "trainModel_begin eng s = Inr (s', m, a, b, c)" using assms(1) ts by simp
  have l: "live_tensors s' = live_tensors s @ [a, b, c]"
    using b by (rule trainModel_begin_suspended(2))
  have h: "a = next_tensor s \<and> b = Suc (next_tensor s) \<and> c = Suc (Suc (next_tensor s))"
    using b by (rule trainModel_begin_suspended(3))
  have fresh: "a \<notin> set (live_tensors s)" "b \<notin> set (live_tensors s)" "c \<notin> set (live_tensors s)"
    using assms(3) h by auto
  have "live_tensors (trainModel eng s) = removeAll c (removeAll b (removeAll a (live_tensors s')))"
    using assms(1,2) ts by (simp add: trainModel_def trainModel_resume_completed)
  also have "\<dots> = live_tensors s"
    using fresh h by (simp add: l removeAll_id)
  finally show ?thesis .
qed

lemma trainModel_raised_leaks:
  assumes "trainModel_begin eng s = Inr (s', m, a, b, c)"
    and "fit_tf eng m (ratings (data s')) = FitRaised losses e m'"
  shows "live_tensors (trainModel eng s) = live_tensors s @ [a, b, c]"
    and "model (trainModel eng s) = Some m'"
  using assms trainModel_begin_suspended(2) [OF assms(1)]
  by (simp_all add: trainModel_def trainModel_resume_raised)

text \<open>
  Claim C1, on the code: a request made while \<open>trainModel\<close> is suspended at the fit is
  not answered \<open>ModelNotReady\<close>; the model that has not been fitted yet gives a score and
  the score is shown.
\<close>

theorem predict_while_training_shows_score:
  "(case trainModel_begin demo_engine demo_session of
      Inl s \<Rightarrow> NothingShown
    | Inr (s, ts) \<Rightarrow> fst (predictRating s (js ''3'') (js ''1''))) =
   Predicted \<lparr>shown_user = js ''3'', shown_title = js ''Toy Story'',
              stars = [full_star, full_star, full_star, empty_star, empty_star],
              score_text = js ''3.5'', latent_factors = 10\<rparr>"
  by code_simp

text \<open>
  Claim C2, on the code: after a training call whose fit raised, the global \<open>model\<close> holds
  the model of one epoch and a request is answered with its score.
\<close>

theorem predict_after_failed_training_shows_score:
  "(case model (trainModel failing_engine demo_session) of
      None \<Rightarrow> None
    | Some m \<Rightarrow> Some (epochs_fit m)) = Some 1 \<and>
   status (trainModel failing_engine demo_session) = TrainingFailed ''out of memory'' \<and>
   fst (predictRating (trainModel failing_engine demo_session) (js ''3'') (js ''1'')) =
   Predicted \<lparr>shown_user = js ''3'', shown_title = js ''Toy Story'',
              stars = [full_star, full_star, full_star, empty_star, empty_star],
              score_text = js ''3.5'', latent_factors = 10\<rparr>"
  by code_simp

text \<open>
  Claim C3, on the code: after a training call whose fit raised, the three tensors of the
  call are still held; after one whose fit completed, none is.
\<close>

theorem failed_training_keeps_tensors:
  "live_tensors (trainModel failing_engine demo_session) = [0, 1, 2] \<and>
   live_tensors (trainModel demo_engine demo_session) = []"
  by code_simp

end
